theory Spec2Isabelle
  imports Complex_Main "HOL-Library.Word" "HOL-Library.Signed_Division"
begin

unbundle bit_operations_syntax

section \<open>Count-Sketch optimizers: the sketches and the Adam driver\<close>

text \<open>
  The development embeds three source files: \<^verbatim>\<open>optimizers/cms.py\<close> (the
  CountMinSketch and its CUDA kernel), \<^verbatim>\<open>optimizers/dense_exp_cms.py\<close> (the DenseCMS
  compressor and its two kernels) and \<^verbatim>\<open>adam_error.py\<close> (the Adam optimizer with a
  dense and a sparse path and an error diagnostic).

  Conventions of the embedding.
  \<^item> C \<^verbatim>\<open>int\<close> values that the hash mixes are \<open>32 word\<close>; multiplication and addition wrap,
    \<^verbatim>\<open>>>\<close> on a signed \<^verbatim>\<open>int\<close> is the arithmetic shift \<open>signed_drop_bit\<close>, and \<^verbatim>\<open>%\<close> is
    C's truncating remainder \<open>smod\<close> on the signed values.
  \<^item> Buffer offsets (\<^verbatim>\<open>blockIdx.x * D + threadIdx.x\<close> and the like) are computed on
    unbounded integers: the buffers are far smaller than \<open>2 ^ 31\<close> entries.
  \<^item> \<^verbatim>\<open>float\<close> and Python float arithmetic is idealised as arithmetic on \<open>real\<close>. A value
    that is not a finite number (the \<^verbatim>\<open>inf\<close> or \<^verbatim>\<open>NaN\<close> that a division by zero or a
    square root of a negative number produces without raising) is \<open>None\<close> in the type
    \<open>real option\<close>.
  \<^item> Blocks are run one after the other. Where every entry of a buffer is touched by one
    thread only, or through \<^verbatim>\<open>atomicAdd\<close>, the threads of a block are run in the order of
    the loop index. The accumulation into shared memory in \<^verbatim>\<open>dense_cms_update\<close>, which is
    neither, is modelled as the warp executes it (see \<open>cms_pass\<close>).
  \<^item> Every raise of the Python code and every access outside a buffer is a value of the
    type \<open>error\<close>.
\<close>

datatype error =
    DivisionByZero      \<comment> \<open>C: \<^verbatim>\<open>h % 0\<close>\<close>
  | OutOfBounds         \<comment> \<open>an access outside a device buffer\<close>
  | ValueError          \<comment> \<open>Python: hyperparameter validation, \<^verbatim>\<open>math.sqrt\<close> of a negative\<close>
  | ZeroDivisionError   \<comment> \<open>Python: float division by zero\<close>
  | KeyError            \<comment> \<open>Python: a missing entry of the state dict\<close>
  | RuntimeError        \<comment> \<open>torch: shapes that do not match, an unsupported operation\<close>

subsection \<open>The hash function (both kernels files, lines 9-18)\<close>

type_synonym int32 = "32 word"
type_synonym int64 = "64 word"

text \<open>\<^verbatim>\<open>h ^= h >> n\<close> on a signed 32-bit \<^verbatim>\<open>h\<close>.\<close>

definition xorshift :: "nat \<Rightarrow> int32 \<Rightarrow> int32" where
  "xorshift n h = h XOR signed_drop_bit n h"

text \<open>The body of \<^verbatim>\<open>hash\<close> up to the final reduction.\<close>

definition hash_mix :: "int32 \<Rightarrow> int32 \<Rightarrow> int32 \<Rightarrow> int32" where
  "hash_mix v a b =
     (let h = a * v + b;
          h = xorshift 16 h;
          h = h * 0x85ebca6b;
          h = xorshift 13 h;
          h = h * 0xc2b2ae35;
          h = xorshift 16 h
      in h)"

text \<open>\<^verbatim>\<open>int hash(int value, int range, int a, int b)\<close>; the result is read as a signed integer.\<close>

definition hash :: "int32 \<Rightarrow> int32 \<Rightarrow> int32 \<Rightarrow> int32 \<Rightarrow> error + int" where
  "hash v rng a b =
     (if rng = 0 then Inl DivisionByZero
      else Inr (sint (hash_mix v a b) smod sint rng))"

subsection \<open>Helpers shared by the models\<close>

text \<open>Python's \<^verbatim>\<open>int(x)\<close> on a float: truncation towards zero.\<close>

definition py_int :: "real \<Rightarrow> int" where
  "py_int x = (if 0 \<le> x then \<lfloor>x\<rfloor> else \<lceil>x\<rceil>)"

text \<open>
  A loop whose body can fail: the first error ends it. It runs the threads of a kernel and
  the iterations of a \<^verbatim>\<open>for\<close> loop in the order of the list.
\<close>

fun loop :: "(nat \<Rightarrow> 's \<Rightarrow> error + 's) \<Rightarrow> nat list \<Rightarrow> 's \<Rightarrow> error + 's" where
  "loop f [] s = Inr s"
| "loop f (i # is) s = (case f i s of Inl e \<Rightarrow> Inl e | Inr s' \<Rightarrow> loop f is s')"

text \<open>Values of a float buffer that may stop being finite numbers.\<close>

type_synonym float = "real option"

definition fadd :: "float \<Rightarrow> float \<Rightarrow> float" where
  "fadd x y = (case x of None \<Rightarrow> None | Some a \<Rightarrow> (case y of None \<Rightarrow> None | Some b \<Rightarrow> Some (a + b)))"

definition fscale :: "real \<Rightarrow> float \<Rightarrow> float" where
  "fscale c x = (case x of None \<Rightarrow> None | Some a \<Rightarrow> Some (c * a))"

text \<open>\<^verbatim>\<open>rsqrtf(x)\<close>: infinite at 0, NaN below.\<close>

definition rsqrtf :: "real \<Rightarrow> float" where
  "rsqrtf x = (if 0 < x then Some (1 / sqrt x) else None)"

text \<open>\<^verbatim>\<open>sqrt\<close> of a tensor element: NaN below 0.\<close>

definition fsqrt :: "real \<Rightarrow> float" where
  "fsqrt x = (if 0 \<le> x then Some (sqrt x) else None)"

text \<open>Elementwise float division: a zero or non-finite divisor gives a non-finite quotient.\<close>

definition fdiv :: "real \<Rightarrow> float \<Rightarrow> float" where
  "fdiv x y = (case y of None \<Rightarrow> None | Some d \<Rightarrow> if d = 0 then None else Some (x / d))"

subsection \<open>CountMinSketch (\<^verbatim>\<open>optimizers/cms.py\<close>)\<close>

text \<open>\<^verbatim>\<open>minimum\<close>: \<^verbatim>\<open>fminf(fminf(a,b),c)\<close>.\<close>

definition minimum :: "real \<Rightarrow> real \<Rightarrow> real \<Rightarrow> real" where
  "minimum a b c = min (min a b) c"

record CountMinSketch =
  cm_N :: nat
  cm_D :: nat
  cm_blk_size :: nat
  cm_range :: int
  cm_width :: int
  cm_cms :: "real list"

text \<open>
  \<^verbatim>\<open>CountMinSketch.__init__\<close>. \<^verbatim>\<open>math.ceil(D // 32) * 32\<close> takes the ceiling of an integer
  quotient, which is that quotient. \<^verbatim>\<open>torch.zeros(3, range, D)\<close> raises for a negative
  dimension; the table is kept flat, as the kernel addresses it.
\<close>

definition CountMinSketch_init :: "nat \<Rightarrow> nat \<Rightarrow> real \<Rightarrow> error + CountMinSketch" where
  "CountMinSketch_init N D sketch_size =
     (let blk_size = (D div 32) * 32;
          rng = py_int (real N * sketch_size / 3)
      in if rng < 0 then Inl RuntimeError
         else Inr \<lparr>cm_N = N, cm_D = D, cm_blk_size = blk_size, cm_range = rng,
                   cm_width = rng * int D, cm_cms = replicate (3 * nat rng * D) 0\<rparr>)"

definition salts_a :: "int32 list" where
  "salts_a = [994443, 4113759, 9171025]"

definition salts_b :: "int32 list" where
  "salts_b = [609478, 2949676, 2171464]"

text \<open>
  One iteration of the loop of \<^verbatim>\<open>cms_update_retrieve\<close>: row \<open>idx\<close>, thread (lane) \<open>tid\<close>.
  The \<^verbatim>\<open>long\<close> key is narrowed to the \<^verbatim>\<open>int\<close> parameter of \<^verbatim>\<open>hash\<close>.
\<close>

definition cms_row ::
  "int \<Rightarrow> int \<Rightarrow> nat \<Rightarrow> nat \<Rightarrow> int64 \<Rightarrow> real \<Rightarrow> real list \<Rightarrow> nat \<Rightarrow> error + (real list \<times> real)" where
  "cms_row N W D tid index v mem idx =
     (case hash (ucast index) (word_of_int N) (salts_a ! idx) (salts_b ! idx) of
        Inl e \<Rightarrow> Inl e
      | Inr h \<Rightarrow>
          let hash_idx = int idx * W + h * int D + int tid in
          if hash_idx < 0 \<or> int (length mem) \<le> hash_idx then Inl OutOfBounds
          else let mem' = mem[nat hash_idx := mem ! nat hash_idx + v]
               in Inr (mem', mem' ! nat hash_idx))"

definition cms_update_retrieve ::
  "real list \<Rightarrow> int \<Rightarrow> int \<Rightarrow> nat \<Rightarrow> nat \<Rightarrow> int64 \<Rightarrow> real \<Rightarrow> error + (real list \<times> real)" where
  "cms_update_retrieve mem N W D tid index v =
     (case cms_row N W D tid index v mem 0 of
        Inl e \<Rightarrow> Inl e
      | Inr (mem0, r0) \<Rightarrow>
     (case cms_row N W D tid index v mem0 1 of
        Inl e \<Rightarrow> Inl e
      | Inr (mem1, r1) \<Rightarrow>
     (case cms_row N W D tid index v mem1 2 of
        Inl e \<Rightarrow> Inl e
      | Inr (mem2, r2) \<Rightarrow> Inr (mem2, minimum r0 r1 r2))))"

text \<open>The kernel \<^verbatim>\<open>hash_update_retrieve\<close> for the thread \<open>tx\<close> of block \<open>bx\<close>.\<close>

definition hash_update_retrieve ::
  "int64 list \<Rightarrow> real list \<Rightarrow> int \<Rightarrow> int \<Rightarrow> nat \<Rightarrow> nat \<Rightarrow> nat
    \<Rightarrow> real list \<times> real list \<Rightarrow> error + (real list \<times> real list)" where
  "hash_update_retrieve indices vals N W D bx tx s =
     (case s of (mem, result) \<Rightarrow>
        if tx < D then
          let idx = bx * D + tx in
          if length vals \<le> idx \<or> length indices \<le> bx \<or> length result \<le> idx
          then Inl OutOfBounds
          else (case cms_update_retrieve mem N W D tx (indices ! bx) (vals ! idx) of
                  Inl e \<Rightarrow> Inl e
                | Inr (mem', r) \<Rightarrow> Inr (mem', result[idx := r]))
        else Inr (mem, result))"

text \<open>
  \<^verbatim>\<open>CountMinSketch.update\<close>: \<open>values\<close> has one row per index; the kernel runs on a grid
  of \<open>M\<close> blocks of \<open>blk_size\<close> threads over the zero-filled \<open>result\<close>, which is returned
  (flat) as the values of the sparse tensor.
\<close>

definition CountMinSketch_update ::
  "CountMinSketch \<Rightarrow> int64 list \<Rightarrow> real list list \<Rightarrow> error + (CountMinSketch \<times> real list)" where
  "CountMinSketch_update c indices vals =
     (let M = length vals;
          result = replicate (length (concat vals)) 0
      in case loop (\<lambda>bx. loop (hash_update_retrieve indices (concat vals)
                                  (cm_range c) (cm_width c) (cm_D c) bx)
                              [0..<cm_blk_size c])
                   [0..<M] (cm_cms c, result) of
           Inl e \<Rightarrow> Inl e
         | Inr (mem, result') \<Rightarrow> Inr (c\<lparr>cm_cms := mem\<rparr>, result'))"

subsection \<open>DenseCMS (\<^verbatim>\<open>optimizers/dense_exp_cms.py\<close>)\<close>

record DenseCMS =
  dc_N :: nat
  dc_D :: nat
  dc_blk_size :: nat
  dc_range :: nat
  dc_cms :: "real list"

text \<open>\<^verbatim>\<open>DenseCMS.__init__\<close>: the table has \<open>N\<close> rows of \<open>range\<close> buckets, kept flat.\<close>

definition DenseCMS_init :: "nat \<Rightarrow> nat \<Rightarrow> real \<Rightarrow> DenseCMS" where
  "DenseCMS_init N D sketch_size =
     (let rng = nat (max (py_int (real D * sketch_size)) 1)
      in \<lparr>dc_N = N, dc_D = D, dc_blk_size = 32, dc_range = rng,
          dc_cms = replicate (N * rng) 0\<rparr>)"

datatype kernel_name = Dense_update | Dense_cms_update

text \<open>\<^verbatim>\<open>DenseCMS.initialize\<close>: the kernel is chosen once; \<open>D\<close> and \<open>range\<close> never change.\<close>

definition initialize :: "DenseCMS \<Rightarrow> kernel_name" where
  "initialize c = (if dc_D c = dc_range c then Dense_update else Dense_cms_update)"

text \<open>
  The second loop of \<^verbatim>\<open>dense_cms_update\<close>. The block is one warp of \<^verbatim>\<open>blockDim.x\<close> threads,
  which run the loop body in lockstep: in one pass, thread \<^verbatim>\<open>threadIdx.x\<close> handles the
  coordinate \<^verbatim>\<open>index = base + threadIdx.x\<close> if it is below \<open>D\<close>, and \<^verbatim>\<open>__syncthreads()\<close>
  separates the passes. \<open>aux\<close> and \<open>acc\<close> are the two halves of the shared array, of \<open>W\<close>
  entries each.

  Lines 53 to 63 of a thread read \<open>aux\<close>, which no thread writes in this loop, and add to
  the thread's own parameter with \<^verbatim>\<open>atomicAdd\<close>: \<open>cms_thread\<close>.

  Line 66, \<^verbatim>\<open>acc[hash_idx] += value\<close>, is a plain load, add and store on shared memory, not
  an atomic add. All threads of a pass load \<open>acc\<close> before any of them stores, so the store of
  a thread writes the value that \<open>acc\<close> had before the pass plus the thread's own value
  (\<open>cms_store\<close>, with \<open>before\<close> the array at the start of the pass); where several
  coordinates of a pass share a bucket, the store that lands last is what remains. The
  program does not determine the order in which the stores of a pass land: it is the
  parameter \<open>sched\<close>, which maps the coordinates of a pass to this order.
\<close>

definition cms_thread ::
  "real \<Rightarrow> real \<Rightarrow> nat \<Rightarrow> nat \<Rightarrow> real list \<Rightarrow> real list \<Rightarrow> nat
    \<Rightarrow> float list \<Rightarrow> error + float list" where
  "cms_thread lr beta offset W aux gradient index parameter =
     (let g = gradient ! (offset + index);
          v2 = g ^ 2
      in (case hash (word_of_nat (offset + index)) (word_of_nat W) 994443 609478 of
            Inl e \<Rightarrow> Inl e
          | Inr hash_idx \<Rightarrow>
              if hash_idx < 0 \<or> int W \<le> hash_idx then Inl OutOfBounds
              else
                let v = beta * aux ! nat hash_idx + (1 - beta) * v2;
                    update = fscale (lr * g) (rsqrtf (v + 1 / 10 ^ 10))
                in Inr (parameter[offset + index := fadd (parameter ! (offset + index)) update])))"

definition cms_store ::
  "nat \<Rightarrow> nat \<Rightarrow> real list \<Rightarrow> real list \<Rightarrow> nat \<Rightarrow> real list \<Rightarrow> error + real list" where
  "cms_store offset W gradient before index acc =
     (let g = gradient ! (offset + index);
          v2 = g ^ 2
      in (case hash (word_of_nat (offset + index)) (word_of_nat W) 994443 609478 of
            Inl e \<Rightarrow> Inl e
          | Inr hash_idx \<Rightarrow>
              if hash_idx < 0 \<or> int W \<le> hash_idx then Inl OutOfBounds
              else Inr (acc[nat hash_idx := before ! nat hash_idx + v2])))"

text \<open>One pass of the warp over the coordinates \<open>is\<close>.\<close>

definition cms_pass ::
  "real \<Rightarrow> real \<Rightarrow> nat \<Rightarrow> nat \<Rightarrow> real list \<Rightarrow> real list \<Rightarrow> (nat list \<Rightarrow> nat list) \<Rightarrow> nat list
    \<Rightarrow> float list \<times> real list \<Rightarrow> error + (float list \<times> real list)" where
  "cms_pass lr beta offset W aux gradient sched is s =
     (case s of (parameter, acc) \<Rightarrow>
        (case loop (cms_thread lr beta offset W aux gradient) is parameter of
           Inl e \<Rightarrow> Inl e
         | Inr parameter' \<Rightarrow>
             (case loop (cms_store offset W gradient acc) (sched is) acc of
                Inl e \<Rightarrow> Inl e
              | Inr acc' \<Rightarrow> Inr (parameter', acc'))))"

text \<open>
  The kernel \<^verbatim>\<open>dense_cms_update\<close> for block \<open>bx\<close> with \<open>blk\<close> threads: stage, update in
  passes of \<open>blk\<close> coordinates, commit. In the first and the third loop every entry is
  handled by one thread only. A launch with no thread in the block is refused.
\<close>

definition dense_cms_update ::
  "real \<Rightarrow> real \<Rightarrow> nat \<Rightarrow> nat \<Rightarrow> nat \<Rightarrow> real list \<Rightarrow> (nat list \<Rightarrow> nat list) \<Rightarrow> nat
    \<Rightarrow> float list \<times> real list \<Rightarrow> error + (float list \<times> real list)" where
  "dense_cms_update lr beta blk D W gradient sched bx s =
     (case s of (parameter, mem) \<Rightarrow>
        if blk = 0 then Inl RuntimeError
        else
          let offset = bx * D;
              aux = map (\<lambda>index. mem ! (bx * W + index)) [0..<W];
              acc = replicate W 0
          in (case loop (\<lambda>k. cms_pass lr beta offset W aux gradient sched
                                [k * blk..<min (k * blk + blk) D])
                        [0..<(D + blk - 1) div blk] (parameter, acc) of
               Inl e \<Rightarrow> Inl e
             | Inr (parameter', acc') \<Rightarrow>
                 Inr (parameter',
                      fold (\<lambda>index m. m[bx * W + index :=
                                          m ! (bx * W + index) + (1 - beta) * (acc' ! index - aux ! index)])
                           [0..<W] mem)))"

text \<open>The body of the second loop of \<^verbatim>\<open>dense_update\<close> for one coordinate.\<close>

definition dense_coord ::
  "real \<Rightarrow> real \<Rightarrow> nat \<Rightarrow> real list \<Rightarrow> real list \<Rightarrow> nat
    \<Rightarrow> float list \<times> real list \<Rightarrow> error + (float list \<times> real list)" where
  "dense_coord lr beta offset aux gradient index s =
     (case s of (parameter, acc) \<Rightarrow>
        let g = gradient ! (offset + index);
            v2 = g ^ 2;
            v = beta * aux ! index + (1 - beta) * v2;
            update = fscale (lr * g) (rsqrtf (v + 1 / 10 ^ 10))
        in Inr (parameter[offset + index := fadd (parameter ! (offset + index)) update],
                acc[index := acc ! index + v2]))"

text \<open>The kernel \<^verbatim>\<open>dense_update\<close> for block \<open>bx\<close>; it indexes \<open>mem\<close> with \<open>D\<close>.\<close>

definition dense_update ::
  "real \<Rightarrow> real \<Rightarrow> nat \<Rightarrow> nat \<Rightarrow> real list \<Rightarrow> nat
    \<Rightarrow> float list \<times> real list \<Rightarrow> error + (float list \<times> real list)" where
  "dense_update lr beta D W gradient bx s =
     (case s of (parameter, mem) \<Rightarrow>
        let offset = bx * D;
            aux = map (\<lambda>index. mem ! (bx * D + index)) [0..<D];
            acc = replicate D 0
        in (case loop (dense_coord lr beta offset aux gradient) [0..<D] (parameter, acc) of
             Inl e \<Rightarrow> Inl e
           | Inr (parameter', acc') \<Rightarrow>
               Inr (parameter',
                    fold (\<lambda>index m. m[bx * D + index :=
                                        m ! (bx * D + index) + (1 - beta) * (acc' ! index - aux ! index)])
                         [0..<D] mem)))"

text \<open>
  \<^verbatim>\<open>DenseCMS.update\<close>: one block of \<^verbatim>\<open>blk_size\<close> threads per row. The kernel reads
  \<open>parameter\<close> and \<open>gradient\<close> at every offset below \<open>N * D\<close> and \<open>mem\<close> at every offset
  below \<open>N * range\<close>, so a buffer shorter than that is an access outside it. \<open>sched\<close> is
  the order of the stores of a warp pass in the hashed kernel; the other kernel does not
  depend on it.
\<close>

definition DenseCMS_update ::
  "(nat list \<Rightarrow> nat list) \<Rightarrow> DenseCMS \<Rightarrow> float list \<Rightarrow> real list \<Rightarrow> real \<Rightarrow> real
    \<Rightarrow> error + (float list \<times> DenseCMS)" where
  "DenseCMS_update sched c p g lr beta =
     (let N = dc_N c; D = dc_D c; W = dc_range c in
      if length p < N * D \<or> length g < N * D \<or> length (dc_cms c) < N * W then Inl OutOfBounds
      else case loop (case initialize c of
                        Dense_update \<Rightarrow> dense_update lr beta D W g
                      | Dense_cms_update \<Rightarrow>
                          dense_cms_update lr beta (dc_blk_size c) D W g sched)
                     [0..<N] (p, dc_cms c) of
             Inl e \<Rightarrow> Inl e
           | Inr (p', mem) \<Rightarrow> Inr (p', c\<lparr>dc_cms := mem\<rparr>))"

text \<open>\<^verbatim>\<open>DenseCMS.clean\<close>: \<^verbatim>\<open>self.cms.mul_(alpha)\<close>.\<close>

definition clean :: "real \<Rightarrow> DenseCMS \<Rightarrow> DenseCMS" where
  "clean alpha c = c\<lparr>dc_cms := map (\<lambda>x. x * alpha) (dc_cms c)\<rparr>"

subsection \<open>Quantities the statements about the compressor refer to\<close>


text \<open>The bucket that \<^verbatim>\<open>dense_cms_update\<close> computes for the flat coordinate \<open>j\<close>.\<close>

definition bucket :: "nat \<Rightarrow> nat \<Rightarrow> nat" where
  "bucket W j = (case hash (word_of_nat j) (word_of_nat W) 994443 609478 of
                   Inl e \<Rightarrow> 0 | Inr h \<Rightarrow> nat h)"

text \<open>
  The sum of the squared gradients of the coordinates of the row starting at \<open>offset\<close>
  whose bucket is \<open>w\<close>.
\<close>

definition bucket_sum :: "real list \<Rightarrow> nat \<Rightarrow> nat \<Rightarrow> nat \<Rightarrow> nat \<Rightarrow> real" where
  "bucket_sum g offset W D w =
     sum_list (map (\<lambda>i. (g ! (offset + i)) ^ 2) (filter (\<lambda>i. bucket W (offset + i) = w) [0..<D]))"

subsection \<open>The Adam optimizer (\<^verbatim>\<open>adam_error.py\<close>): construction and the dense path\<close>

text \<open>
  A parameter group: the hyperparameters \<^verbatim>\<open>lr\<close>, \<^verbatim>\<open>betas\<close>, \<^verbatim>\<open>eps\<close>, \<^verbatim>\<open>weight_decay\<close> and
  \<^verbatim>\<open>amsgrad\<close>. The fields \<^verbatim>\<open>exp_avg_error\<close>, \<^verbatim>\<open>exp_avg_sq_error\<close> and \<^verbatim>\<open>count\<close> of the
  optimizer object are the record \<open>diag\<close>; the second error sum is computed from the float
  tensor \<^verbatim>\<open>denom\<close> and is a float.
\<close>

record group =
  g_lr :: real
  g_betas :: "real \<times> real"
  g_eps :: real
  g_weight_decay :: real
  g_amsgrad :: bool

record diag =
  exp_avg_error :: real
  exp_avg_sq_error :: float
  count :: nat


text \<open>
  Lines 89-91 of \<^verbatim>\<open>dense\<close> and 176-178 of \<^verbatim>\<open>sparse\<close>: the bias corrections and the step
  size. \<^verbatim>\<open>math.sqrt\<close> raises on a negative argument and the Python division on a zero
  divisor.
\<close>

definition step_size :: "group \<Rightarrow> nat \<Rightarrow> error + real" where
  "step_size grp n =
     (let bias_correction1 = 1 - fst (g_betas grp) ^ n;
          bias_correction2 = 1 - snd (g_betas grp) ^ n
      in if bias_correction2 < 0 then Inl ValueError
         else if bias_correction1 = 0 then Inl ZeroDivisionError
         else Inr (g_lr grp * sqrt bias_correction2 / bias_correction1))"

text \<open>
  The state of a dense parameter: the entries \<^verbatim>\<open>step\<close>, \<^verbatim>\<open>exp_avg\<close>, \<^verbatim>\<open>exp_avg_sq\<close> and,
  when the state was created with \<^verbatim>\<open>amsgrad\<close>, \<^verbatim>\<open>max_exp_avg_sq\<close> of the state dict. Tensors
  are flat lists; shapes that differ raise (broadcasting is not modelled).
\<close>

record dense_state =
  d_step :: nat
  d_exp_avg :: "real list"
  d_exp_avg_sq :: "real list"
  d_max_exp_avg_sq :: "real list option"

definition zeros_like :: "'a list \<Rightarrow> real list" where
  "zeros_like p = replicate (length p) 0"

text \<open>\<^verbatim>\<open>denom = v.sqrt().add_(eps)\<close> for one element.\<close>

definition denom_of :: "real \<Rightarrow> real \<Rightarrow> float" where
  "denom_of e v = fadd (fsqrt v) (Some e)"

text \<open>Lines 58-66: the state of the parameter, created on its first dense gradient.\<close>

definition dense_or_init :: "real list \<Rightarrow> group \<Rightarrow> dense_state option \<Rightarrow> dense_state" where
  "dense_or_init p grp state =
     (case state of
        None \<Rightarrow> \<lparr>d_step = 0, d_exp_avg = zeros_like p, d_exp_avg_sq = zeros_like p,
                  d_max_exp_avg_sq = (if g_amsgrad grp then Some (zeros_like p) else None)\<rparr>
      | Some s \<Rightarrow> s)"

text \<open>
  \<^verbatim>\<open>Adam.dense\<close>. The state is \<open>None\<close> for the empty dict. The result is the new state,
  the tensor \<^verbatim>\<open>denom\<close> and the new parameter.
\<close>

definition dense ::
  "real list \<Rightarrow> real list \<Rightarrow> group \<Rightarrow> dense_state option
    \<Rightarrow> error + (dense_state \<times> float list \<times> float list)" where
  "dense p grad grp state =
     (let st = dense_or_init p grp state;
          beta1 = fst (g_betas grp);
          beta2 = snd (g_betas grp)
      in if g_amsgrad grp \<and> d_max_exp_avg_sq st = None then Inl KeyError
         else if length grad = length p \<and> length (d_exp_avg st) = length p
                 \<and> length (d_exp_avg_sq st) = length p
                 \<and> (if g_amsgrad grp then length (the (d_max_exp_avg_sq st)) = length p else True)
         then
          (let n = d_step st + 1;
               grad = (if g_weight_decay grp \<noteq> 0
                       then map2 (\<lambda>g x. g + g_weight_decay grp * x) grad p else grad);
               exp_avg = map2 (\<lambda>m g. m * beta1 + (1 - beta1) * g) (d_exp_avg st) grad;
               exp_avg_sq = map2 (\<lambda>v g. v * beta2 + (1 - beta2) * g * g) (d_exp_avg_sq st) grad;
               max_exp_avg_sq =
                 (if g_amsgrad grp
                  then Some (map2 max (the (d_max_exp_avg_sq st)) exp_avg_sq)
                  else d_max_exp_avg_sq st);
               denom = (if g_amsgrad grp
                        then map (denom_of (g_eps grp)) (the max_exp_avg_sq)
                        else map (denom_of (g_eps grp)) exp_avg_sq)
           in (case step_size grp n of
                 Inl e \<Rightarrow> Inl e
               | Inr ss \<Rightarrow>
                   Inr (\<lparr>d_step = n, d_exp_avg = exp_avg, d_exp_avg_sq = exp_avg_sq,
                         d_max_exp_avg_sq = max_exp_avg_sq\<rparr>,
                        denom,
                        map2 (\<lambda>x q. fadd (Some x) (fscale (- ss) q)) p (map2 fdiv exp_avg denom))))
         else Inl RuntimeError)"

text \<open>
  A state dict that \<^verbatim>\<open>dense\<close> created for the parameter \<open>p\<close> under the same \<^verbatim>\<open>amsgrad\<close>
  setting: tensors of the shape of \<open>p\<close>. In such a state the second moments are not
  negative (\<open>state_nonneg\<close>), since they start at 0 and are averaged with squares.
\<close>

definition state_ok :: "real list \<Rightarrow> group \<Rightarrow> dense_state option \<Rightarrow> bool" where
  "state_ok p grp state =
     (case state of
        None \<Rightarrow> True
      | Some s \<Rightarrow>
          length (d_exp_avg s) = length p \<and> length (d_exp_avg_sq s) = length p \<and>
          (if g_amsgrad grp
           then (case d_max_exp_avg_sq s of None \<Rightarrow> False | Some mx \<Rightarrow> length mx = length p)
           else True))"


text \<open>The running maximum that a step starts from: zeros in a fresh state.\<close>

definition prev_max :: "real list \<Rightarrow> dense_state option \<Rightarrow> real list" where
  "prev_max p state =
     (case state of
        None \<Rightarrow> zeros_like p
      | Some s \<Rightarrow> (case d_max_exp_avg_sq s of None \<Rightarrow> [] | Some mx \<Rightarrow> mx))"

subsection \<open>The sparse path of \<^verbatim>\<open>adam_error.py\<close>\<close>

text \<open>
  A sparse gradient of a parameter of shape \<open>(N, D)\<close>: row indices, one row of \<open>D\<close> values
  per index, and the size.
\<close>

record sparse_grad =
  sg_indices :: "nat list"
  sg_values :: "real list list"
  sg_size :: "nat \<times> nat"

text \<open>
  torch's \<^verbatim>\<open>coalesce()\<close>: the indices sorted and without duplicates, the rows of a repeated
  index added up.
\<close>

definition sum_rows :: "nat \<Rightarrow> real list list \<Rightarrow> real list" where
  "sum_rows D rows = foldr (map2 (+)) rows (replicate D 0)"

definition coalesce :: "sparse_grad \<Rightarrow> sparse_grad" where
  "coalesce grad =
     (let ks = sort (remdups (sg_indices grad))
      in grad\<lparr>sg_indices := ks,
               sg_values := map (\<lambda>k. sum_rows (snd (sg_size grad))
                                       (map snd (filter (\<lambda>kv. fst kv = k)
                                                   (zip (sg_indices grad) (sg_values grad)))))
                                ks\<rparr>)"

text \<open>
  The classes \<^verbatim>\<open>CountSketch\<close> (module \<^verbatim>\<open>exp_sketch\<close>) and \<^verbatim>\<open>CountMinSketch\<close> (module
  \<^verbatim>\<open>exp_cms\<close>) that \<^verbatim>\<open>adam_error.py\<close> imports are not among the source files; the sparse
  path takes their operations as parameters: the constructors, \<^verbatim>\<open>update(indices, values,
  size, beta)\<close>, which returns the new sketch and the values of the estimate (one row per
  index), and \<^verbatim>\<open>clean(alpha)\<close>.
\<close>

record ('cs, 'cms) sketches =
  CountSketch_new :: "nat \<Rightarrow> nat \<Rightarrow> 'cs"
  CountSketch_update :: "'cs \<Rightarrow> nat list \<Rightarrow> real list list \<Rightarrow> real \<Rightarrow> 'cs \<times> real list list"
  exp_cms_new :: "nat \<Rightarrow> nat \<Rightarrow> 'cms"
  exp_cms_update :: "'cms \<Rightarrow> nat list \<Rightarrow> real list list \<Rightarrow> real \<Rightarrow> 'cms \<times> real list list"
  exp_cms_clean :: "'cms \<Rightarrow> real \<Rightarrow> 'cms"

text \<open>The state dict of a sparse parameter.\<close>

record ('cs, 'cms) sparse_state =
  s_step :: nat
  s_exp_avg :: 'cs
  s_exp_avg_base :: "real list list"
  s_exp_avg_sq :: 'cms
  s_exp_avg_sq_base :: "real list list"

text \<open>\<^verbatim>\<open>base.sparse_mask(grad)._values()\<close>: the rows of a dense tensor at the indices.\<close>

definition sparse_mask :: "real list list \<Rightarrow> nat list \<Rightarrow> real list list" where
  "sparse_mask base idx = map (\<lambda>k. base ! k) idx"

text \<open>\<^verbatim>\<open>base.add_(make_sparse(values))\<close>: the rows are added at their indices.\<close>

definition add_sparse :: "real list list \<Rightarrow> nat list \<Rightarrow> real list list \<Rightarrow> real list list" where
  "add_sparse base idx rows =
     fold (\<lambda>kr b. b[fst kr := map2 (+) (b ! fst kr) (snd kr)]) (zip idx rows) base"

text \<open>\<^verbatim>\<open>torch.sum(torch.abs(a - b)).item()\<close>, for a real and for a float first operand.\<close>

definition sum_abs_diff :: "real list list \<Rightarrow> real list list \<Rightarrow> real" where
  "sum_abs_diff A B = sum_list (map2 (\<lambda>a b. sum_list (map2 (\<lambda>x y. \<bar>x - y\<bar>) a b)) A B)"

definition fsum_abs_diff :: "float list list \<Rightarrow> real list list \<Rightarrow> float" where
  "fsum_abs_diff A B =
     foldr fadd
       (concat (map2 (map2 (\<lambda>x y. case x of None \<Rightarrow> None | Some d \<Rightarrow> Some \<bar>d - y\<bar>)) A B))
       (Some 0)"

text \<open>
  Lines 166-174: the counters of the optimizer, given the two error sums of this call. The
  second component is what the call prints, if it prints.
\<close>

definition diagnostic :: "diag \<Rightarrow> real \<Rightarrow> float \<Rightarrow> diag \<times> (real \<times> float) option" where
  "diagnostic dg e1 e2 =
     (let printed = (if count dg mod 125 = 0
                     then Some (exp_avg_error dg / real (count dg),
                                fscale (1 / real (count dg)) (exp_avg_sq_error dg))
                     else None);
          dg = (if count dg mod 125 = 0
                then \<lparr>exp_avg_error = 0, exp_avg_sq_error = Some 0, count = 1\<rparr>
                else dg)
      in (\<lparr>exp_avg_error = exp_avg_error dg + e1,
           exp_avg_sq_error = fadd (exp_avg_sq_error dg) e2,
           count = count dg + 1\<rparr>, printed))"

text \<open>
  Lines 98-107: the state of the parameter, created on the first sparse gradient (\<open>None\<close>
  is the empty dict).
\<close>

definition state_or_init ::
  "('cs, 'cms) sketches \<Rightarrow> real list list \<Rightarrow> sparse_grad \<Rightarrow> ('cs, 'cms) sparse_state option
    \<Rightarrow> ('cs, 'cms) sparse_state" where
  "state_or_init ops p grad state =
     (case state of
        None \<Rightarrow>
          \<lparr>s_step = 0,
           s_exp_avg = CountSketch_new ops (fst (sg_size grad)) (snd (sg_size grad)),
           s_exp_avg_base = map zeros_like p,
           s_exp_avg_sq = exp_cms_new ops (fst (sg_size grad)) (snd (sg_size grad)),
           s_exp_avg_sq_base = map zeros_like p\<rparr>
      | Some s \<Rightarrow> s)"

text \<open>
  \<^verbatim>\<open>Adam.sparse\<close>. Adding the dense \<^verbatim>\<open>p.data\<close> to the sparse gradient (a weight decay
  other than 0) is not supported by torch and raises. The indices of the gradient must
  address rows of the parameter and of the two shadow tensors. The result is the new
  state, the new counters, what was printed, the tensor \<^verbatim>\<open>denom\<close> and the new parameter.
\<close>

definition sparse ::
  "('cs, 'cms) sketches \<Rightarrow> diag \<Rightarrow> real list list \<Rightarrow> sparse_grad \<Rightarrow> group
    \<Rightarrow> ('cs, 'cms) sparse_state option
    \<Rightarrow> error + (('cs, 'cms) sparse_state \<times> diag \<times> (real \<times> float) option
                 \<times> float list list \<times> float list list)" where
  "sparse ops dg p grad grp state =
     (let st = state_or_init ops p grad state;
          n = s_step st + 1
      in if g_weight_decay grp \<noteq> 0 then Inl RuntimeError
         else
           let grad = coalesce grad;
               grad_indices = sg_indices grad;
               grad_values = sg_values grad;
               beta1 = fst (g_betas grp);
               beta2 = snd (g_betas grp)
           in if list_all (\<lambda>k. k < length p) grad_indices
                 \<and> length (s_exp_avg_base st) = length p
                 \<and> length (s_exp_avg_sq_base st) = length p
              then
               (let exp_avg_sq = (if n mod 1000 = 0
                                  then exp_cms_clean ops (s_exp_avg_sq st) (1 / 4)
                                  else s_exp_avg_sq st);
                    r1 = CountSketch_update ops (s_exp_avg st) grad_indices grad_values beta1;
                    numer = snd r1;
                    r2 = exp_cms_update ops exp_avg_sq grad_indices
                           (map (map (\<lambda>x. x ^ 2)) grad_values) beta2;
                    denom = map (map (denom_of (g_eps grp))) (snd r2);
                    update = map2 (map2 fdiv) numer denom;
                    old_exp_avg_values_base = sparse_mask (s_exp_avg_base st) grad_indices;
                    exp_avg_update_values_base =
                      map2 (map2 (\<lambda>g old. (g - old) * (1 - beta1))) grad_values old_exp_avg_values_base;
                    exp_avg_base = add_sparse (s_exp_avg_base st) grad_indices exp_avg_update_values_base;
                    exp_avg_values_base =
                      map2 (map2 (+)) exp_avg_update_values_base old_exp_avg_values_base;
                    old_exp_avg_sq_values_base = sparse_mask (s_exp_avg_sq_base st) grad_indices;
                    exp_avg_sq_update_values_base =
                      map2 (map2 (\<lambda>g old. (g ^ 2 - old) * (1 - beta2))) grad_values
                        old_exp_avg_sq_values_base;
                    exp_avg_sq_base =
                      add_sparse (s_exp_avg_sq_base st) grad_indices exp_avg_sq_update_values_base;
                    exp_avg_sq_values_base = sparse_mask exp_avg_sq_base grad_indices;
                    dp = diagnostic dg (sum_abs_diff numer exp_avg_values_base)
                           (fsum_abs_diff denom exp_avg_sq_values_base)
                in (case step_size grp n of
                      Inl e \<Rightarrow> Inl e
                    | Inr ss \<Rightarrow>
                        Inr (\<lparr>s_step = n, s_exp_avg = fst r1, s_exp_avg_base = exp_avg_base,
                              s_exp_avg_sq = fst r2, s_exp_avg_sq_base = exp_avg_sq_base\<rparr>,
                             fst dp, snd dp, denom,
                             fold (\<lambda>kr q. q[fst kr := map2 (\<lambda>x u. fadd x (fscale (- ss) u))
                                                          (q ! fst kr) (snd kr)])
                                  (zip grad_indices update) (map (map Some) p))))
              else Inl RuntimeError)"

text \<open>
  What a caller of the sparse path provides: a gradient whose indices are rows of the
  parameter and, after the first call, the state that the first call created.
\<close>

definition sparse_ok ::
  "real list list \<Rightarrow> sparse_grad \<Rightarrow> ('cs, 'cms) sparse_state option \<Rightarrow> bool" where
  "sparse_ok p grad state =
     (list_all (\<lambda>k. k < length p) (sg_indices grad) \<and>
      (case state of
         None \<Rightarrow> True
       | Some s \<Rightarrow> length (s_exp_avg_base s) = length p \<and> length (s_exp_avg_sq_base s) = length p))"


text \<open>What successive calls of the sparse path print, given the two error sums of each call.\<close>

fun run_diagnostic :: "diag \<Rightarrow> (real \<times> float) list \<Rightarrow> (real \<times> float) option list" where
  "run_diagnostic dg [] = []"
| "run_diagnostic dg (e # es) =
     snd (diagnostic dg (fst e) (snd e)) # run_diagnostic (fst (diagnostic dg (fst e) (snd e))) es"

text \<open>
  A stand-in for the two absent sketch classes, to observe what the sparse path does with
  its sketches: the sketch is the list of the calls it has received, and an update
  returns the values it was given as its estimate.
\<close>

datatype call = Update "nat list" "real list list" real | Clean real

definition recorder :: "(call list, call list) sketches" where
  "recorder =
     \<lparr>CountSketch_new = (\<lambda>N D. []),
      CountSketch_update = (\<lambda>s idx vs beta. (s @ [Update idx vs beta], vs)),
      exp_cms_new = (\<lambda>N D. []),
      exp_cms_update = (\<lambda>s idx vs beta. (s @ [Update idx vs beta], vs)),
      exp_cms_clean = (\<lambda>s alpha. s @ [Clean alpha])\<rparr>"

text \<open>
  A second stand-in for the absent sketch classes: its estimate is the exact moving
  average of a key seen for the first time, \<open>(1 - beta) * value\<close>, which is what the
  shadow tensors hold after the first step from a fresh state.
\<close>

definition exact_first_step :: "(unit, unit) sketches" where
  "exact_first_step =
     \<lparr>CountSketch_new = (\<lambda>N D. ()),
      CountSketch_update = (\<lambda>s idx vs beta. (s, map (map (\<lambda>g. g * (1 - beta))) vs)),
      exp_cms_new = (\<lambda>N D. ()),
      exp_cms_update = (\<lambda>s idx vs beta. (s, map (map (\<lambda>g. g * (1 - beta))) vs)),
      exp_cms_clean = (\<lambda>s alpha. s)\<rparr>"

text \<open>The calls, counted from 1, that print.\<close>

definition printing_calls :: "(real \<times> float) option list \<Rightarrow> nat list" where
  "printing_calls outs = map Suc (filter (\<lambda>i. outs ! i \<noteq> None) [0..<length outs])"



text \<open>
  The row hash and the table offset that \<^verbatim>\<open>cms_update_retrieve\<close> computes for a key, a lane
  and a row, when the range is positive.
\<close>

definition row_hash :: "int \<Rightarrow> int64 \<Rightarrow> nat \<Rightarrow> int" where
  "row_hash N index idx =
     sint (hash_mix (ucast index) (salts_a ! idx) (salts_b ! idx)) mod N"

definition cell :: "int \<Rightarrow> int \<Rightarrow> nat \<Rightarrow> nat \<Rightarrow> int64 \<Rightarrow> nat \<Rightarrow> nat" where
  "cell N W D tid index idx = nat (int idx * W + row_hash N index idx * int D + int tid)"

section \<open>Properties\<close>

subsection \<open>The hash function\<close>

lemma xorshift_msb: "0 < n \<Longrightarrow> \<not> bit (xorshift n h) 31"
  by (auto simp add: xorshift_def bit_simps)

lemma xorshift_nonneg: "0 < n \<Longrightarrow> 0 \<le> sint (xorshift n h)"
  using xorshift_msb [of n h] bit_last_iff [of "xorshift n h"] by simp

lemma hash_mix_nonneg: "0 \<le> sint (hash_mix v a b)"
  by (simp add: hash_mix_def Let_def xorshift_nonneg)

lemma uint_eq_sint:
  fixes w :: int32
  assumes "0 \<le> sint w"
  shows "uint w = sint w"
proof -
  have "sint w < 2 ^ 32"
    using sint_lt [of w] by simp
  then have "take_bit 32 (sint w) = sint w"
    using assms by (simp add: take_bit_int_eq_self)
  then show ?thesis
    using uint_sint [of w] by simp
qed

lemma hash_mix_uint: "uint (hash_mix v a b) = sint (hash_mix v a b)"
  by (rule uint_eq_sint) (rule hash_mix_nonneg)

lemma hash_Inr:
  assumes "0 < sint rng"
  shows "hash v rng a b = Inr (sint (hash_mix v a b) mod sint rng)"
proof -
  from assms have "rng \<noteq> 0" by auto
  moreover have "sint (hash_mix v a b) smod sint rng = sint (hash_mix v a b) mod sint rng"
    using assms hash_mix_nonneg [of v a b] by (simp add: smod_mod_positive)
  ultimately show ?thesis by (simp add: hash_def)
qed

text \<open>
  Claim C4. For every key and every positive range, \<open>hash\<close> returns a bucket index in
  \<open>[0, range)\<close>, and the index is the unsigned reduction of the mixed value. In the code the
  remainder is the signed \<^verbatim>\<open>%\<close>; the result is never negative because the last
  \<^verbatim>\<open>h ^= h >> 16\<close> is an arithmetic shift, which clears the sign bit of \<^verbatim>\<open>h\<close>, so that the signed
  and the unsigned reduction agree.
\<close>

theorem hash_in_range:
  assumes "0 < sint rng"
  shows "\<exists>i. hash v rng a b = Inr i \<and> 0 \<le> i \<and> i < sint rng
             \<and> i = uint (hash_mix v a b) mod uint rng"
proof -
  have u: "uint rng = sint rng"
    using assms by (simp add: uint_eq_sint)
  show ?thesis
    using assms by (simp add: hash_Inr hash_mix_uint u)
qed

theorem hash_in_range_witness:
  "0 < sint (7 :: int32) \<and> hash 3 7 994443 609478 = Inr 6"
proof -
  have h: "0 < sint (7 :: int32)" by simp
  from hash_in_range [OF h, of 3 994443 609478]
  obtain i where "hash 3 7 994443 609478 = Inr i" by blast
  moreover have "hash 3 7 994443 609478 = Inr 6"
    by (simp add: hash_def hash_mix_def xorshift_def Let_def)
  ultimately show ?thesis using h by simp
qed

subsection \<open>Loops and the commit phase\<close>

lemma loop_append:
  "loop f (xs @ ys) s = (case loop f xs s of Inl e \<Rightarrow> Inl e | Inr s' \<Rightarrow> loop f ys s')"
  by (induction xs arbitrary: s) (auto split: sum.splits)

lemma loop_upt_Suc:
  "loop f [0..<Suc n] s = (case loop f [0..<n] s of Inl e \<Rightarrow> Inl e | Inr s' \<Rightarrow> f n s')"
  by (simp add: loop_append split: sum.splits)







subsection \<open>The kernels of the compressor\<close>

lemma sint_word_of_nat:
  assumes "W < 2 ^ 31"
  shows "sint (word_of_nat W :: int32) = int W"
  using assms
  by (simp add: sint_uint signed_take_bit_eq_if_positive take_bit_eq_mod unsigned_of_nat
       signed_take_bit_int_eq_self)

lemma hash_bucket:
  assumes "0 < W" and "W < 2 ^ 31"
  shows "hash (word_of_nat j) (word_of_nat W) 994443 609478 = Inr (int (bucket W j))"
    and "bucket W j < W"
proof -
  let ?h = "sint (hash_mix (word_of_nat j) 994443 609478) mod int W"
  have s: "sint (word_of_nat W :: int32) = int W"
    using assms by (simp add: sint_word_of_nat)
  then have h: "hash (word_of_nat j) (word_of_nat W) 994443 609478 = Inr ?h"
    using hash_Inr [of "word_of_nat W" "word_of_nat j" 994443 609478] assms by simp
  have i: "0 \<le> ?h" "?h < int W"
    using assms by simp_all
  from h i show "hash (word_of_nat j) (word_of_nat W) 994443 609478 = Inr (int (bucket W j))"
    by (simp add: bucket_def)
  from h i show "bucket W j < W"
    by (simp add: bucket_def)
qed

subsection \<open>The no-hashing path\<close>




subsection \<open>The constructors and the width\<close>

lemma DenseCMS_range_ge_1: "1 \<le> dc_range (DenseCMS_init N D sketch_size)"
  by (simp add: DenseCMS_init_def Let_def)

text \<open>
  Claim C8, at an input where it fails. \<^verbatim>\<open>DenseCMS.__init__\<close> clamps its width with
  \<^verbatim>\<open>max(..., 1)\<close> (lemma \<open>DenseCMS_range_ge_1\<close>), but \<^verbatim>\<open>CountMinSketch.__init__\<close> takes
  \<^verbatim>\<open>int(N*sketch_size/3.)\<close> as it is: for \<open>N = 10\<close> and the default fraction the sketch has
  width 0 and an empty table, and its first update divides by zero in \<^verbatim>\<open>hash\<close>.
\<close>

theorem CountMinSketch_width_zero:
  "CountMinSketch_init 10 32 (1 / 5) =
     Inr \<lparr>cm_N = 10, cm_D = 32, cm_blk_size = 32, cm_range = 0, cm_width = 0, cm_cms = []\<rparr> \<and>
   CountMinSketch_update
     \<lparr>cm_N = 10, cm_D = 32, cm_blk_size = 32, cm_range = 0, cm_width = 0, cm_cms = []\<rparr>
     [7] [replicate 32 1] = Inl DivisionByZero"
proof -
  have "CountMinSketch_init 10 32 (1 / 5) =
     Inr \<lparr>cm_N = 10, cm_D = 32, cm_blk_size = 32, cm_range = 0, cm_width = 0, cm_cms = []\<rparr>"
    by (simp add: CountMinSketch_init_def py_int_def Let_def)
  moreover have "CountMinSketch_update
     \<lparr>cm_N = 10, cm_D = 32, cm_blk_size = 32, cm_range = 0, cm_width = 0, cm_cms = []\<rparr>
     [7] [replicate 32 1] = Inl DivisionByZero"
    by (simp add: CountMinSketch_update_def Let_def upt_rec hash_update_retrieve_def
        cms_update_retrieve_def cms_row_def hash_def)
  ultimately show ?thesis by simp
qed

subsection \<open>The estimate of the CountMinSketch\<close>

lemma sint_word_of_int:
  assumes "0 \<le> N" and "N < 2 ^ 31"
  shows "sint (word_of_int N :: int32) = N"
  using assms by (simp add: sint_sbintrunc' signed_take_bit_int_eq_self)

lemma cell_bounds:
  assumes N: "0 < N" and W: "W = N * int D" and t: "tid < D"
  shows "int idx * W \<le> int idx * W + row_hash N index idx * int D + int tid"
    and "int idx * W + row_hash N index idx * int D + int tid < (int idx + 1) * W"
proof -
  let ?h = "row_hash N index idx"
  have h: "0 \<le> ?h" "?h \<le> N - 1"
    using N by (simp_all add: row_hash_def)
  then have "0 \<le> ?h * int D" by simp
  then show "int idx * W \<le> int idx * W + ?h * int D + int tid" by simp
  have "?h * int D \<le> (N - 1) * int D"
    using h by (intro mult_right_mono) simp_all
  then have "?h * int D + int tid < N * int D"
    using t by (simp add: algebra_simps)
  then show "int idx * W + ?h * int D + int tid < (int idx + 1) * W"
    by (simp add: W algebra_simps)
qed

lemma cms_row_step:
  assumes N: "0 < N" "N < 2 ^ 31" and W: "W = N * int D" and t: "tid < D"
    and i: "idx < 3" and l: "length mem = nat (3 * W)"
  shows "cms_row N W D tid index v mem idx =
           Inr (mem[cell N W D tid index idx := mem ! cell N W D tid index idx + v],
                mem ! cell N W D tid index idx + v)"
    and "cell N W D tid index idx < length mem"
proof -
  let ?a = "int idx * W + row_hash N index idx * int D + int tid"
  have s: "sint (word_of_int N :: int32) = N"
    using N by (simp add: sint_word_of_int)
  have h: "hash (ucast index) (word_of_int N) (salts_a ! idx) (salts_b ! idx)
             = Inr (row_hash N index idx)"
    using hash_Inr [of "word_of_int N" "ucast index" "salts_a ! idx" "salts_b ! idx"] N s
    by (simp add: row_hash_def)
  have b: "int idx * W \<le> ?a" "?a < (int idx + 1) * W"
    using cell_bounds [OF N(1) W t] by simp_all
  have w: "0 \<le> W" using N W by simp
  then have "0 \<le> int idx * W" by simp
  with b have a0: "0 \<le> ?a" by linarith
  have "(int idx + 1) * W \<le> 3 * W"
    using i w by (intro mult_right_mono) simp_all
  with b have a1: "?a < 3 * W" by linarith
  then have a2: "?a < int (length mem)" using l w by simp
  then show c: "cell N W D tid index idx < length mem"
    using a0 by (simp add: cell_def)
  show "cms_row N W D tid index v mem idx =
           Inr (mem[cell N W D tid index idx := mem ! cell N W D tid index idx + v],
                mem ! cell N W D tid index idx + v)"
    using h a0 a2 c by (simp add: cms_row_def Let_def cell_def)
qed

lemma cell_rows_differ:
  assumes N: "0 < N" and W: "W = N * int D" and t: "tid < D" and ne: "idx \<noteq> idx'"
  shows "cell N W D tid index idx \<noteq> cell N W D tid index idx'"
proof -
  have w: "0 \<le> W" using N W by simp
  have d: "cell N W D tid index i < cell N W D tid index j" if "i < j" for i j
  proof -
    let ?a = "\<lambda>k. int k * W + row_hash N index k * int D + int tid"
    have "?a i < (int i + 1) * W" using cell_bounds [OF N W t] by simp
    also have "\<dots> \<le> int j * W"
      using that w by (intro mult_right_mono) simp_all
    also have "\<dots> \<le> ?a j" using cell_bounds [OF N W t] by simp
    finally have "?a i < ?a j" .
    moreover have "0 \<le> ?a i"
      using cell_bounds(1) [OF N W t, of i index] w
      by (smt (verit) mult_nonneg_nonneg of_nat_0_le_iff)
    ultimately show ?thesis by (simp add: cell_def)
  qed
  from ne consider "idx < idx'" | "idx' < idx" by linarith
  then show ?thesis
    using d [of idx idx'] d [of idx' idx] by cases simp_all
qed


text \<open>
  The count-min property of one thread of the kernel: on a sketch with a positive range
  and a table of \<open>3 * W\<close> entries, the thread of a lane below \<open>D\<close> adds the value to
  three different cells, one per row, and returns their minimum; if each of the three
  cells was at least \<open>S\<close>, the exact sum so far, the estimate is at least \<open>S + v\<close>, with
  equality when the three cells held exactly \<open>S\<close>; no cell decreases.
\<close>

lemma cms_update_retrieve_overestimates:
  assumes N: "0 < N" "N < 2 ^ 31" and W: "W = N * int D" and t: "tid < D"
    and l: "length mem = nat (3 * W)" and v: "0 \<le> v"
    and S: "\<forall>idx<3. S \<le> mem ! cell N W D tid index idx"
  shows "\<exists>mem' r.
     cms_update_retrieve mem N W D tid index v = Inr (mem', r) \<and>
     length mem' = length mem \<and>
     (\<forall>a<length mem. mem ! a \<le> mem' ! a) \<and>
     (\<forall>idx<3. mem' ! cell N W D tid index idx = mem ! cell N W D tid index idx + v) \<and>
     (\<forall>a<length mem. (\<forall>idx<3. a \<noteq> cell N W D tid index idx) \<longrightarrow> mem' ! a = mem ! a) \<and>
     r = minimum (mem ! cell N W D tid index 0 + v) (mem ! cell N W D tid index 1 + v)
           (mem ! cell N W D tid index 2 + v) \<and>
     S + v \<le> r \<and>
     ((\<forall>idx<3. mem ! cell N W D tid index idx = S) \<longrightarrow> r = S + v)"
proof -
  let ?c = "cell N W D tid index"
  let ?m0 = "mem[?c 0 := mem ! ?c 0 + v]"
  let ?m1 = "?m0[?c 1 := ?m0 ! ?c 1 + v]"
  let ?m2 = "?m1[?c 2 := ?m1 ! ?c 2 + v]"
  have c: "?c 0 < length mem" "?c 1 < length mem" "?c 2 < length mem"
    using cms_row_step(2) [OF N W t _ l] by simp_all
  have ne: "?c 0 \<noteq> ?c 1" "?c 0 \<noteq> ?c 2" "?c 1 \<noteq> ?c 2"
    using cell_rows_differ [OF N(1) W t] by simp_all
  have r0: "cms_row N W D tid index v mem 0 = Inr (?m0, mem ! ?c 0 + v)"
    using cms_row_step(1) [OF N W t _ l, of 0] by simp
  have r1: "cms_row N W D tid index v ?m0 1 = Inr (?m1, mem ! ?c 1 + v)"
    using cms_row_step(1) [OF N W t, of 1 ?m0] l ne by simp
  have r2: "cms_row N W D tid index v ?m1 2 = Inr (?m2, mem ! ?c 2 + v)"
    using cms_row_step(1) [OF N W t, of 2 ?m1] l ne by simp
  let ?r = "minimum (mem ! ?c 0 + v) (mem ! ?c 1 + v) (mem ! ?c 2 + v)"
  have u: "cms_update_retrieve mem N W D tid index v = Inr (?m2, ?r)"
    using r0 r1 r2 by (simp add: cms_update_retrieve_def)
  have three: "idx = 0 \<or> idx = 1 \<or> idx = 2" if "idx < 3" for idx :: nat
    using that by linarith
  have mono: "\<forall>a<length mem. mem ! a \<le> ?m2 ! a"
    using v c by (auto simp: nth_list_update)
  have cells: "\<forall>idx<3. ?m2 ! ?c idx = mem ! ?c idx + v"
    using c ne by (auto dest!: three simp: nth_list_update)
  have other: "\<forall>a<length mem. (\<forall>idx<3. a \<noteq> ?c idx) \<longrightarrow> ?m2 ! a = mem ! a"
  proof (intro allI impI)
    fix a assume "a < length mem" and h: "\<forall>idx<3. a \<noteq> ?c idx"
    from h have "a \<noteq> ?c 0" "a \<noteq> ?c 1" "a \<noteq> ?c 2" by simp_all
    then show "?m2 ! a = mem ! a" by (simp add: nth_list_update)
  qed
  have S0: "S \<le> mem ! ?c 0" and S1: "S \<le> mem ! ?c 1" and S2: "S \<le> mem ! ?c 2"
    using S by simp_all
  have ge: "S + v \<le> ?r"
    using S0 S1 S2 by (simp add: minimum_def)
  have eq: "(\<forall>idx<3. mem ! ?c idx = S) \<longrightarrow> ?r = S + v"
    by (simp add: minimum_def)
  from u mono cells other ge eq show ?thesis by simp
qed

text \<open>
  Claim C1, at an input where it fails. For \<open>D = 33\<close> the constructor computes
  \<^verbatim>\<open>blk_size = math.ceil(33 // 32) * 32 = 32\<close>, so the kernel runs threads 0 to 31 only and
  lane 32 is never added to the sketch: the estimate returned for it is the 0 that
  \<^verbatim>\<open>result\<close> was filled with, below the value 1 accumulated for that key and lane. The
  lanes that have a thread return 1, the exact sum, as lemma
  \<open>cms_update_retrieve_overestimates\<close> says of every thread that runs.
\<close>

theorem CountMinSketch_lane_without_thread:
  "CountMinSketch_init 20 33 (1 / 5) =
     Inr \<lparr>cm_N = 20, cm_D = 33, cm_blk_size = 32, cm_range = 1, cm_width = 33,
          cm_cms = replicate 99 0\<rparr> \<and>
   map_sum id snd (CountMinSketch_update
       \<lparr>cm_N = 20, cm_D = 33, cm_blk_size = 32, cm_range = 1, cm_width = 33,
        cm_cms = replicate 99 0\<rparr>
       [7] [replicate 33 1]) = Inr (replicate 32 1 @ [0])"
proof -
  have "CountMinSketch_init 20 33 (1 / 5) =
     Inr \<lparr>cm_N = 20, cm_D = 33, cm_blk_size = 32, cm_range = 1, cm_width = 33,
          cm_cms = replicate 99 0\<rparr>"
    by (simp add: CountMinSketch_init_def py_int_def Let_def)
  moreover have "map_sum id snd (CountMinSketch_update
       \<lparr>cm_N = 20, cm_D = 33, cm_blk_size = 32, cm_range = 1, cm_width = 33,
        cm_cms = replicate 99 0\<rparr>
       [7] [replicate 33 1]) = Inr (replicate 32 1 @ [0])"
    by code_simp
  ultimately show ?thesis by simp
qed

subsection \<open>The dense path\<close>

lemma step_size_Inr:
  assumes "0 \<le> fst (g_betas grp)" "fst (g_betas grp) < 1"
    and "0 \<le> snd (g_betas grp)" "snd (g_betas grp) < 1" and "0 < n"
  shows "step_size grp n =
     Inr (g_lr grp * sqrt (1 - snd (g_betas grp) ^ n) / (1 - fst (g_betas grp) ^ n))"
    and "0 < 1 - fst (g_betas grp) ^ n" and "0 < 1 - snd (g_betas grp) ^ n"
proof -
  have p: "b ^ n < 1" if "0 \<le> b" "b < 1" for b :: real
    using that assms(5) by (simp add: power_less_one_iff)
  show "0 < 1 - fst (g_betas grp) ^ n" "0 < 1 - snd (g_betas grp) ^ n"
    using p assms by simp_all
  then show "step_size grp n =
     Inr (g_lr grp * sqrt (1 - snd (g_betas grp) ^ n) / (1 - fst (g_betas grp) ^ n))"
    by (simp add: step_size_def Let_def)
qed

lemma nth_map2:
  "i < length xs \<Longrightarrow> i < length ys \<Longrightarrow> map2 f xs ys ! i = f (xs ! i) (ys ! i)"
  by simp

lemma dense_amsgrad_Inr:
  assumes a: "g_amsgrad grp"
    and b: "0 \<le> fst (g_betas grp)" "fst (g_betas grp) < 1"
      "0 \<le> snd (g_betas grp)" "snd (g_betas grp) < 1"
    and l: "length grad = length p" and ok: "state_ok p grp state"
  shows "\<exists>st' denom p' ss.
     dense p grad grp state = Inr (st', denom, p') \<and>
     step_size grp (d_step st') = Inr ss \<and>
     length (d_exp_avg st') = length p \<and> length (d_exp_avg_sq st') = length p \<and>
     length denom = length p \<and> length p' = length p \<and> length (prev_max p state) = length p \<and>
     d_max_exp_avg_sq st' = Some (map2 max (prev_max p state) (d_exp_avg_sq st')) \<and>
     denom = map (denom_of (g_eps grp)) (map2 max (prev_max p state) (d_exp_avg_sq st')) \<and>
     p' = map2 (\<lambda>x q. fadd (Some x) (fscale (- ss) q)) p (map2 fdiv (d_exp_avg st') denom)"
proof (cases state)
  case None
  have s: "step_size grp (Suc 0) =
     Inr (g_lr grp * sqrt (1 - snd (g_betas grp) ^ Suc 0) / (1 - fst (g_betas grp) ^ Suc 0))"
    using b by (intro step_size_Inr) simp_all
  show ?thesis
    using None a l s by (simp add: dense_def dense_or_init_def Let_def prev_max_def zeros_like_def)
next
  case (Some st)
  with ok a obtain mx where mx: "d_max_exp_avg_sq st = Some mx" "length mx = length p"
    and le: "length (d_exp_avg st) = length p" "length (d_exp_avg_sq st) = length p"
    by (auto simp: state_ok_def split: option.splits)
  have s: "step_size grp (Suc (d_step st)) =
     Inr (g_lr grp * sqrt (1 - snd (g_betas grp) ^ Suc (d_step st)) / (1 - fst (g_betas grp) ^ Suc (d_step st)))"
    using b by (intro step_size_Inr) simp_all
  show ?thesis
    using Some a l s mx le by (simp add: dense_def dense_or_init_def Let_def prev_max_def)
qed

text \<open>
  Claim C10. With \<^verbatim>\<open>amsgrad\<close>, a dense step succeeds and leaves in \<^verbatim>\<open>max_exp_avg_sq\<close> the
  pointwise maximum of its previous value (zeros in a fresh state) and the new
  \<^verbatim>\<open>exp_avg_sq\<close>; so no coordinate of it decreases; and the denominator of the update is
  the square root of this maximum (not of \<^verbatim>\<open>exp_avg_sq\<close>) plus \<^verbatim>\<open>eps\<close>.
\<close>

theorem amsgrad_running_maximum:
  assumes "g_amsgrad grp"
    and "0 \<le> fst (g_betas grp)" and "fst (g_betas grp) < 1"
    and "0 \<le> snd (g_betas grp)" and "snd (g_betas grp) < 1"
    and "length grad = length p" and "state_ok p grp state"
  shows "\<exists>st' denom p' mx' ss.
     dense p grad grp state = Inr (st', denom, p') \<and>
     d_max_exp_avg_sq st' = Some mx' \<and> length mx' = length p \<and>
     step_size grp (d_step st') = Inr ss \<and>
     (\<forall>i<length p.
        mx' ! i = max (prev_max p state ! i) (d_exp_avg_sq st' ! i) \<and>
        prev_max p state ! i \<le> mx' ! i \<and>
        denom ! i = fadd (fsqrt (mx' ! i)) (Some (g_eps grp)) \<and>
        p' ! i = fadd (Some (p ! i)) (fscale (- ss) (fdiv (d_exp_avg st' ! i) (denom ! i))))"
proof -
  from dense_amsgrad_Inr [OF assms]
  obtain st' denom p' ss where
    r: "dense p grad grp state = Inr (st', denom, p')"
    and ss: "step_size grp (d_step st') = Inr ss"
    and len: "length (d_exp_avg st') = length p" "length (d_exp_avg_sq st') = length p"
      "length denom = length p" "length p' = length p" "length (prev_max p state) = length p"
    and mx: "d_max_exp_avg_sq st' = Some (map2 max (prev_max p state) (d_exp_avg_sq st'))"
    and dn: "denom = map (denom_of (g_eps grp)) (map2 max (prev_max p state) (d_exp_avg_sq st'))"
    and pp: "p' = map2 (\<lambda>x q. fadd (Some x) (fscale (- ss) q)) p (map2 fdiv (d_exp_avg st') denom)"
    by blast
  let ?mx = "map2 max (prev_max p state) (d_exp_avg_sq st')"
  have lm: "length ?mx = length p" using len by simp
  have "?mx ! i = max (prev_max p state ! i) (d_exp_avg_sq st' ! i) \<and>
        prev_max p state ! i \<le> ?mx ! i \<and>
        denom ! i = fadd (fsqrt (?mx ! i)) (Some (g_eps grp)) \<and>
        p' ! i = fadd (Some (p ! i)) (fscale (- ss) (fdiv (d_exp_avg st' ! i) (denom ! i)))"
    if i: "i < length p" for i
  proof -
    have m: "?mx ! i = max (prev_max p state ! i) (d_exp_avg_sq st' ! i)"
      using i len by simp
    have d: "denom ! i = fadd (fsqrt (?mx ! i)) (Some (g_eps grp))"
      using i len by (simp add: dn denom_of_def)
    have q: "p' ! i = fadd (Some (p ! i)) (fscale (- ss) (fdiv (d_exp_avg st' ! i) (denom ! i)))"
      using i len by (simp add: pp)
    from m d q show ?thesis by simp
  qed
  with r ss mx lm show ?thesis by blast
qed


theorem amsgrad_running_maximum_witness:
  "g_amsgrad \<lparr>g_lr = 1 / 10, g_betas = (1 / 2, 1 / 2), g_eps = 1 / 100, g_weight_decay = 0,
               g_amsgrad = True\<rparr> \<and>
   state_ok [1, 2]
     \<lparr>g_lr = 1 / 10, g_betas = (1 / 2, 1 / 2), g_eps = 1 / 100, g_weight_decay = 0, g_amsgrad = True\<rparr>
     (Some \<lparr>d_step = 1, d_exp_avg = [0, 0], d_exp_avg_sq = [1, 5], d_max_exp_avg_sq = Some [2, 7]\<rparr>) \<and>
   (\<exists>st' denom p' mx'.
      dense [1, 2] [3, - 1]
        \<lparr>g_lr = 1 / 10, g_betas = (1 / 2, 1 / 2), g_eps = 1 / 100, g_weight_decay = 0, g_amsgrad = True\<rparr>
        (Some \<lparr>d_step = 1, d_exp_avg = [0, 0], d_exp_avg_sq = [1, 5], d_max_exp_avg_sq = Some [2, 7]\<rparr>)
        = Inr (st', denom, p') \<and>
      d_exp_avg_sq st' = [5, 3] \<and> d_max_exp_avg_sq st' = Some mx' \<and>
      mx' ! 0 = 5 \<and> mx' ! 1 = 7 \<and>
      denom ! 0 = fadd (fsqrt 5) (Some (1 / 100)) \<and> denom ! 1 = fadd (fsqrt 7) (Some (1 / 100)))"
proof -
  let ?G = "\<lparr>g_lr = 1 / 10, g_betas = (1 / 2, 1 / 2), g_eps = 1 / 100, g_weight_decay = 0,
               g_amsgrad = True\<rparr>"
  let ?S = "Some \<lparr>d_step = 1, d_exp_avg = [0, 0], d_exp_avg_sq = [1, 5], d_max_exp_avg_sq = Some [2, 7]\<rparr>"
  have h: "g_amsgrad ?G" "0 \<le> fst (g_betas ?G)" "fst (g_betas ?G) < 1"
    "0 \<le> snd (g_betas ?G)" "snd (g_betas ?G) < 1"
    "length [3, - 1 :: real] = length [1, 2 :: real]" "state_ok [1, 2] ?G ?S"
    by (simp_all add: state_ok_def)
  from amsgrad_running_maximum [OF h]
  obtain st' denom p' mx' where
    r: "dense [1, 2] [3, - 1] ?G ?S = Inr (st', denom, p')"
    and mx: "d_max_exp_avg_sq st' = Some mx'"
    and s: "\<forall>i<length [1, 2 :: real].
        mx' ! i = max (prev_max [1, 2] ?S ! i) (d_exp_avg_sq st' ! i) \<and>
        denom ! i = fadd (fsqrt (mx' ! i)) (Some (g_eps ?G))"
    by blast
  have "map_sum id (\<lambda>r. d_exp_avg_sq (fst r)) (dense [1, 2] [3, - 1] ?G ?S) = Inr [5, 3]"
    by (simp add: dense_def dense_or_init_def Let_def step_size_def)
  with r have e: "d_exp_avg_sq st' = [5, 3]" by simp
  have "mx' ! 0 = 5 \<and> denom ! 0 = fadd (fsqrt 5) (Some (1 / 100))"
    using s [rule_format, of 0] e by (simp add: prev_max_def)
  moreover have "mx' ! 1 = 7 \<and> denom ! 1 = fadd (fsqrt 7) (Some (1 / 100))"
    using s [rule_format, of 1] e by (simp add: prev_max_def)
  ultimately show ?thesis using h(1,7) r mx e by blast
qed

subsection \<open>The sparse path\<close>

lemma coalesce_indices:
  "distinct (sg_indices (coalesce grad))"
  "sorted (sg_indices (coalesce grad))"
  "set (sg_indices (coalesce grad)) = set (sg_indices grad)"
  "length (sg_values (coalesce grad)) = length (sg_indices (coalesce grad))"
  by (simp_all add: coalesce_def Let_def)

lemma sparse_result:
  assumes wd: "g_weight_decay grp = 0"
    and b: "0 \<le> fst (g_betas grp)" "fst (g_betas grp) < 1"
      "0 \<le> snd (g_betas grp)" "snd (g_betas grp) < 1"
    and ok: "sparse_ok p grad state"
  shows "\<exists>st' dg' printed denom p'.
     sparse ops dg p grad grp state = Inr (st', dg', printed, denom, p') \<and>
     s_step st' = s_step (state_or_init ops p grad state) + 1 \<and>
     s_exp_avg st' =
       fst (CountSketch_update ops (s_exp_avg (state_or_init ops p grad state))
              (sg_indices (coalesce grad)) (sg_values (coalesce grad)) (fst (g_betas grp))) \<and>
     s_exp_avg_sq st' =
       fst (exp_cms_update ops
              (if (s_step (state_or_init ops p grad state) + 1) mod 1000 = 0
               then exp_cms_clean ops (s_exp_avg_sq (state_or_init ops p grad state)) (1 / 4)
               else s_exp_avg_sq (state_or_init ops p grad state))
              (sg_indices (coalesce grad)) (map (map (\<lambda>x. x ^ 2)) (sg_values (coalesce grad)))
              (snd (g_betas grp))) \<and>
     denom =
       map (map (denom_of (g_eps grp)))
         (snd (exp_cms_update ops
              (if (s_step (state_or_init ops p grad state) + 1) mod 1000 = 0
               then exp_cms_clean ops (s_exp_avg_sq (state_or_init ops p grad state)) (1 / 4)
               else s_exp_avg_sq (state_or_init ops p grad state))
              (sg_indices (coalesce grad)) (map (map (\<lambda>x. x ^ 2)) (sg_values (coalesce grad)))
              (snd (g_betas grp))))"
proof -
  let ?st = "state_or_init ops p grad state"
  have s: "step_size grp (Suc (s_step ?st)) =
     Inr (g_lr grp * sqrt (1 - snd (g_betas grp) ^ Suc (s_step ?st)) / (1 - fst (g_betas grp) ^ Suc (s_step ?st)))"
    using b by (intro step_size_Inr) simp_all
  have i: "list_all (\<lambda>k. k < length p) (sg_indices (coalesce grad))"
    using ok by (auto simp: sparse_ok_def coalesce_indices list_all_iff)
  have l: "length (s_exp_avg_base ?st) = length p" "length (s_exp_avg_sq_base ?st) = length p"
    using ok by (auto simp: sparse_ok_def state_or_init_def split: option.splits)
  show ?thesis
    using wd s i l by (simp add: sparse_def Let_def)
qed

text \<open>
  Claim C3 says that the sparse path never coalesces the gradient itself. It does
  (\<^verbatim>\<open>grad = grad.coalesce()\<close>, line 113): for a gradient that names row 3 twice, the
  first-moment sketch receives the single index 3 with the two rows added up.
\<close>

theorem sparse_coalesces_duplicates:
  "map_sum id (s_exp_avg \<circ> fst)
     (sparse recorder \<lparr>exp_avg_error = 0, exp_avg_sq_error = Some 0, count = 1\<rparr>
        [[0, 0], [0, 0], [0, 0], [0, 0], [0, 0]]
        \<lparr>sg_indices = [3, 3], sg_values = [[1, 10], [2, 20]], sg_size = (5, 2)\<rparr>
        \<lparr>g_lr = 1 / 1000, g_betas = (9 / 10, 999 / 1000), g_eps = 1 / 10 ^ 8,
         g_weight_decay = 0, g_amsgrad = False\<rparr>
        None)
   = Inr [Update [3] [[3, 30]] (9 / 10)]"
proof -
  have c: "coalesce \<lparr>sg_indices = [3, 3], sg_values = [[1, 10], [2, 20]], sg_size = (5, 2)\<rparr>
         = \<lparr>sg_indices = [3], sg_values = [[3, 30]], sg_size = (5, 2)\<rparr>"
    by (simp add: coalesce_def sum_rows_def numeral_2_eq_2)
  show ?thesis
    by (simp add: sparse_def c Let_def state_or_init_def recorder_def step_size_def)
qed

text \<open>
  Claim C3, amended. For every sparse gradient whose indices are rows of the parameter
  (and weight decay 0), the step succeeds, and both sketches are updated with the
  indices and values of the coalesced gradient: each index of the gradient once, the
  rows of a repeated index added up. Unique keys are not something the caller has to
  provide.
\<close>

theorem sparse_path_coalesces:
  assumes "g_weight_decay grp = 0"
    and "0 \<le> fst (g_betas grp)" and "fst (g_betas grp) < 1"
    and "0 \<le> snd (g_betas grp)" and "snd (g_betas grp) < 1"
    and "sparse_ok p grad state"
  shows "distinct (sg_indices (coalesce grad)) \<and>
     set (sg_indices (coalesce grad)) = set (sg_indices grad) \<and>
     (\<exists>st' dg' printed denom p'.
        sparse ops dg p grad grp state = Inr (st', dg', printed, denom, p') \<and>
        s_exp_avg st' =
          fst (CountSketch_update ops (s_exp_avg (state_or_init ops p grad state))
                 (sg_indices (coalesce grad)) (sg_values (coalesce grad)) (fst (g_betas grp))) \<and>
        s_exp_avg_sq st' =
          fst (exp_cms_update ops
                 (if (s_step (state_or_init ops p grad state) + 1) mod 1000 = 0
                  then exp_cms_clean ops (s_exp_avg_sq (state_or_init ops p grad state)) (1 / 4)
                  else s_exp_avg_sq (state_or_init ops p grad state))
                 (sg_indices (coalesce grad)) (map (map (\<lambda>x. x ^ 2)) (sg_values (coalesce grad)))
                 (snd (g_betas grp))))"
  using sparse_result [OF assms, of ops dg] by (auto simp: coalesce_indices)


theorem sparse_path_coalesces_witness:
  "g_weight_decay \<lparr>g_lr = 1 / 1000, g_betas = (9 / 10, 999 / 1000), g_eps = 1 / 10 ^ 8,
         g_weight_decay = 0, g_amsgrad = False\<rparr> = 0 \<and>
   sparse_ok [[0, 0], [0, 0], [0, 0], [0, 0], [0, 0]]
     \<lparr>sg_indices = [3, 3], sg_values = [[1, 10], [2, 20]], sg_size = (5, 2)\<rparr>
     (None :: (call list, call list) sparse_state option) \<and>
   (\<exists>st' dg' printed denom p'.
      sparse recorder \<lparr>exp_avg_error = 0, exp_avg_sq_error = Some 0, count = 1\<rparr>
        [[0, 0], [0, 0], [0, 0], [0, 0], [0, 0]]
        \<lparr>sg_indices = [3, 3], sg_values = [[1, 10], [2, 20]], sg_size = (5, 2)\<rparr>
        \<lparr>g_lr = 1 / 1000, g_betas = (9 / 10, 999 / 1000), g_eps = 1 / 10 ^ 8,
         g_weight_decay = 0, g_amsgrad = False\<rparr>
        None = Inr (st', dg', printed, denom, p') \<and>
      s_exp_avg st' = [Update [3] [[3, 30]] (9 / 10)] \<and>
      s_exp_avg_sq st' = [Update [3] [[9, 900]] (999 / 1000)])"
proof -
  let ?G = "\<lparr>g_lr = 1 / 1000, g_betas = (9 / 10, 999 / 1000), g_eps = 1 / 10 ^ 8,
         g_weight_decay = 0, g_amsgrad = False\<rparr>"
  let ?g = "\<lparr>sg_indices = [3, 3], sg_values = [[1, 10], [2, 20]], sg_size = (5, 2)\<rparr>"
  let ?p = "[[0, 0], [0, 0], [0, 0], [0, 0], [0, 0 :: real]]"
  let ?dg = "\<lparr>exp_avg_error = 0, exp_avg_sq_error = Some 0, count = 1\<rparr>"
  have c: "coalesce ?g = \<lparr>sg_indices = [3], sg_values = [[3, 30]], sg_size = (5, 2)\<rparr>"
    by (simp add: coalesce_def sum_rows_def numeral_2_eq_2)
  have h: "g_weight_decay ?G = 0" "0 \<le> fst (g_betas ?G)" "fst (g_betas ?G) < 1"
    "0 \<le> snd (g_betas ?G)" "snd (g_betas ?G) < 1"
    "sparse_ok ?p ?g (None :: (call list, call list) sparse_state option)"
    by (simp_all add: sparse_ok_def)
  from sparse_path_coalesces [OF h, of recorder ?dg]
  obtain st' dg' printed denom p' where
    r: "sparse recorder ?dg ?p ?g ?G None = Inr (st', dg', printed, denom, p')"
    and a: "s_exp_avg st' =
          fst (CountSketch_update recorder (s_exp_avg (state_or_init recorder ?p ?g None))
                 (sg_indices (coalesce ?g)) (sg_values (coalesce ?g)) (fst (g_betas ?G)))"
    and b: "s_exp_avg_sq st' =
          fst (exp_cms_update recorder
                 (if (s_step (state_or_init recorder ?p ?g None) + 1) mod 1000 = 0
                  then exp_cms_clean recorder (s_exp_avg_sq (state_or_init recorder ?p ?g None)) (1 / 4)
                  else s_exp_avg_sq (state_or_init recorder ?p ?g None))
                 (sg_indices (coalesce ?g)) (map (map (\<lambda>x. x ^ 2)) (sg_values (coalesce ?g)))
                 (snd (g_betas ?G)))"
    by blast
  have "s_exp_avg st' = [Update [3] [[3, 30]] (9 / 10)]"
    using a by (simp add: c state_or_init_def recorder_def)
  moreover have "s_exp_avg_sq st' = [Update [3] [[9, 900]] (999 / 1000)]"
    using b by (simp add: c state_or_init_def recorder_def)
  ultimately show ?thesis using h(1,6) r by blast
qed

lemma minimum_scale:
  assumes "0 \<le> alpha"
  shows "minimum (alpha * a) (alpha * b) (alpha * c) = alpha * minimum a b c"
  using assms by (simp add: minimum_def min_mult_distrib_left)

text \<open>
  Claim C7. \<open>clean alpha\<close> multiplies every entry of the table by \<open>alpha\<close>, so every
  value read from it, and for \<open>0 \<le> alpha\<close> every minimum over three rows, is scaled by
  exactly \<open>alpha\<close>; and the sparse path calls \<open>clean\<close> (with 0.25) on the second-moment
  sketch before updating it exactly when the incremented step counter is a multiple of
  1000.
\<close>

theorem clean_scales_table:
  assumes "g_weight_decay grp = 0"
    and "0 \<le> fst (g_betas grp)" and "fst (g_betas grp) < 1"
    and "0 \<le> snd (g_betas grp)" and "snd (g_betas grp) < 1"
    and "sparse_ok p grad state"
  shows "length (dc_cms (clean alpha c)) = length (dc_cms c) \<and>
     (\<forall>i<length (dc_cms c). dc_cms (clean alpha c) ! i = alpha * dc_cms c ! i) \<and>
     (0 \<le> alpha \<longrightarrow>
        minimum (alpha * r0) (alpha * r1) (alpha * r2) = alpha * minimum r0 r1 r2) \<and>
     (\<exists>st' dg' printed denom p'.
        sparse ops dg p grad grp state = Inr (st', dg', printed, denom, p') \<and>
        s_step st' = s_step (state_or_init ops p grad state) + 1 \<and>
        s_exp_avg_sq st' =
          fst (exp_cms_update ops
                 (if s_step st' mod 1000 = 0
                  then exp_cms_clean ops (s_exp_avg_sq (state_or_init ops p grad state)) (1 / 4)
                  else s_exp_avg_sq (state_or_init ops p grad state))
                 (sg_indices (coalesce grad)) (map (map (\<lambda>x. x ^ 2)) (sg_values (coalesce grad)))
                 (snd (g_betas grp))))"
proof -
  have "length (dc_cms (clean alpha c)) = length (dc_cms c)"
    by (simp add: clean_def)
  moreover have "\<forall>i<length (dc_cms c). dc_cms (clean alpha c) ! i = alpha * dc_cms c ! i"
    by (simp add: clean_def)
  moreover have "0 \<le> alpha \<longrightarrow>
        minimum (alpha * r0) (alpha * r1) (alpha * r2) = alpha * minimum r0 r1 r2"
    by (simp add: minimum_scale)
  moreover from sparse_result [OF assms, of ops dg]
  have "\<exists>st' dg' printed denom p'.
        sparse ops dg p grad grp state = Inr (st', dg', printed, denom, p') \<and>
        s_step st' = s_step (state_or_init ops p grad state) + 1 \<and>
        s_exp_avg_sq st' =
          fst (exp_cms_update ops
                 (if s_step st' mod 1000 = 0
                  then exp_cms_clean ops (s_exp_avg_sq (state_or_init ops p grad state)) (1 / 4)
                  else s_exp_avg_sq (state_or_init ops p grad state))
                 (sg_indices (coalesce grad)) (map (map (\<lambda>x. x ^ 2)) (sg_values (coalesce grad)))
                 (snd (g_betas grp)))"
    by auto
  ultimately show ?thesis by blast
qed


theorem clean_scales_table_witness:
  "(0::real) \<le> 1 / 4 \<and>
   dc_cms (clean (1 / 4) \<lparr>dc_N = 1, dc_D = 10, dc_blk_size = 32, dc_range = 2, dc_cms = [4, 8]\<rparr>) ! 0 = 1 \<and>
   dc_cms (clean (1 / 4) \<lparr>dc_N = 1, dc_D = 10, dc_blk_size = 32, dc_range = 2, dc_cms = [4, 8]\<rparr>) ! 1 = 2 \<and>
   minimum (1 / 4 * 4) (1 / 4 * 8) (1 / 4 * 12) = 1 / 4 * minimum 4 8 12 \<and>
   (\<exists>st' dg' printed denom p'.
      sparse recorder \<lparr>exp_avg_error = 0, exp_avg_sq_error = Some 0, count = 1\<rparr>
        [[0, 0], [0, 0], [0, 0], [0, 0], [0, 0]]
        \<lparr>sg_indices = [3, 3], sg_values = [[1, 10], [2, 20]], sg_size = (5, 2)\<rparr>
        \<lparr>g_lr = 1 / 1000, g_betas = (9 / 10, 999 / 1000), g_eps = 1 / 10 ^ 8,
         g_weight_decay = 0, g_amsgrad = False\<rparr>
        (Some \<lparr>s_step = 999, s_exp_avg = [],
               s_exp_avg_base = [[0, 0], [0, 0], [0, 0], [0, 0], [0, 0]],
               s_exp_avg_sq = [],
               s_exp_avg_sq_base = [[0, 0], [0, 0], [0, 0], [0, 0], [0, 0]]\<rparr>)
        = Inr (st', dg', printed, denom, p') \<and>
      s_step st' = 1000 \<and>
      s_exp_avg_sq st' = [Clean (1 / 4), Update [3] [[9, 900]] (999 / 1000)]) \<and>
   (\<exists>st' dg' printed denom p'.
      sparse recorder \<lparr>exp_avg_error = 0, exp_avg_sq_error = Some 0, count = 1\<rparr>
        [[0, 0], [0, 0], [0, 0], [0, 0], [0, 0]]
        \<lparr>sg_indices = [3, 3], sg_values = [[1, 10], [2, 20]], sg_size = (5, 2)\<rparr>
        \<lparr>g_lr = 1 / 1000, g_betas = (9 / 10, 999 / 1000), g_eps = 1 / 10 ^ 8,
         g_weight_decay = 0, g_amsgrad = False\<rparr>
        (Some \<lparr>s_step = 1000, s_exp_avg = [],
               s_exp_avg_base = [[0, 0], [0, 0], [0, 0], [0, 0], [0, 0]],
               s_exp_avg_sq = [],
               s_exp_avg_sq_base = [[0, 0], [0, 0], [0, 0], [0, 0], [0, 0]]\<rparr>)
        = Inr (st', dg', printed, denom, p') \<and>
      s_step st' = 1001 \<and>
      s_exp_avg_sq st' = [Update [3] [[9, 900]] (999 / 1000)])"
proof -
  let ?G = "\<lparr>g_lr = 1 / 1000, g_betas = (9 / 10, 999 / 1000), g_eps = 1 / 10 ^ 8,
         g_weight_decay = 0, g_amsgrad = False\<rparr>"
  let ?g = "\<lparr>sg_indices = [3, 3], sg_values = [[1, 10], [2, 20]], sg_size = (5, 2)\<rparr>"
  let ?p = "[[0, 0], [0, 0], [0, 0], [0, 0], [0, 0 :: real]]"
  let ?dg = "\<lparr>exp_avg_error = 0, exp_avg_sq_error = Some 0, count = 1\<rparr>"
  let ?C = "\<lparr>dc_N = 1, dc_D = 10, dc_blk_size = 32, dc_range = 2, dc_cms = [4, 8]\<rparr>"
  let ?S = "\<lambda>n. Some \<lparr>s_step = n, s_exp_avg = ([] :: call list), s_exp_avg_base = ?p,
               s_exp_avg_sq = ([] :: call list), s_exp_avg_sq_base = ?p\<rparr>"
  have c: "coalesce ?g = \<lparr>sg_indices = [3], sg_values = [[3, 30]], sg_size = (5, 2)\<rparr>"
    by (simp add: coalesce_def sum_rows_def numeral_2_eq_2)
  have h: "g_weight_decay ?G = 0" "0 \<le> fst (g_betas ?G)" "fst (g_betas ?G) < 1"
    "0 \<le> snd (g_betas ?G)" "snd (g_betas ?G) < 1"
    by simp_all
  have ok: "sparse_ok ?p ?g (?S n)" for n
    by (simp add: sparse_ok_def)
  note t1 = clean_scales_table [OF h ok [of 999], where alpha = "1 / 4" and c = ?C
      and ?r0.0 = 4 and ?r1.0 = 8 and ?r2.0 = 12 and ops = recorder and dg = ?dg]
  note t2 = clean_scales_table [OF h ok [of 1000], where alpha = "1 / 4" and c = ?C
      and ?r0.0 = 4 and ?r1.0 = 8 and ?r2.0 = 12 and ops = recorder and dg = ?dg]
  from t1 have al: "\<forall>i<length (dc_cms ?C). dc_cms (clean (1 / 4) ?C) ! i = 1 / 4 * dc_cms ?C ! i"
    and mi: "(0::real) \<le> 1 / 4 \<longrightarrow>
        minimum (1 / 4 * 4) (1 / 4 * 8) (1 / 4 * 12) = 1 / 4 * minimum 4 8 12"
    by blast+
  have k0: "dc_cms (clean (1 / 4) ?C) ! 0 = 1"
    using al [rule_format, of 0] by simp
  have k1: "dc_cms (clean (1 / 4) ?C) ! 1 = 2"
    using al [rule_format, of 1] by simp
  have m: "minimum (1 / 4 * 4) (1 / 4 * 8) (1 / 4 * 12) = 1 / 4 * minimum 4 8 12"
    using mi by simp
  from t1 obtain st' dg' printed denom p' where
    r: "sparse recorder ?dg ?p ?g ?G (?S 999) = Inr (st', dg', printed, denom, p')"
    and n: "s_step st' = s_step (state_or_init recorder ?p ?g (?S 999)) + 1"
    and b: "s_exp_avg_sq st' =
          fst (exp_cms_update recorder
                 (if s_step st' mod 1000 = 0
                  then exp_cms_clean recorder (s_exp_avg_sq (state_or_init recorder ?p ?g (?S 999))) (1 / 4)
                  else s_exp_avg_sq (state_or_init recorder ?p ?g (?S 999)))
                 (sg_indices (coalesce ?g)) (map (map (\<lambda>x. x ^ 2)) (sg_values (coalesce ?g)))
                 (snd (g_betas ?G)))"
    by blast
  from n have n': "s_step st' = 1000" by (simp add: state_or_init_def)
  have b': "s_exp_avg_sq st' = [Clean (1 / 4), Update [3] [[9, 900]] (999 / 1000)]"
    using b by (simp add: n' c state_or_init_def recorder_def)
  from t2 obtain st2 dg2 printed2 denom2 p2 where
    r2: "sparse recorder ?dg ?p ?g ?G (?S 1000) = Inr (st2, dg2, printed2, denom2, p2)"
    and n2: "s_step st2 = s_step (state_or_init recorder ?p ?g (?S 1000)) + 1"
    and b2: "s_exp_avg_sq st2 =
          fst (exp_cms_update recorder
                 (if s_step st2 mod 1000 = 0
                  then exp_cms_clean recorder (s_exp_avg_sq (state_or_init recorder ?p ?g (?S 1000))) (1 / 4)
                  else s_exp_avg_sq (state_or_init recorder ?p ?g (?S 1000)))
                 (sg_indices (coalesce ?g)) (map (map (\<lambda>x. x ^ 2)) (sg_values (coalesce ?g)))
                 (snd (g_betas ?G)))"
    by blast
  from n2 have n2': "s_step st2 = 1001" by (simp add: state_or_init_def)
  have b2': "s_exp_avg_sq st2 = [Update [3] [[9, 900]] (999 / 1000)]"
    using b2 by (simp add: n2' c state_or_init_def recorder_def)
  have z: "(0::real) \<le> 1 / 4" by simp
  from r n' b' have e1: "\<exists>st' dg' printed denom p'.
      sparse recorder ?dg ?p ?g ?G (?S 999) = Inr (st', dg', printed, denom, p') \<and>
      s_step st' = 1000 \<and>
      s_exp_avg_sq st' = [Clean (1 / 4), Update [3] [[9, 900]] (999 / 1000)]"
    by blast
  from r2 n2' b2' have e2: "\<exists>st' dg' printed denom p'.
      sparse recorder ?dg ?p ?g ?G (?S 1000) = Inr (st', dg', printed, denom, p') \<and>
      s_step st' = 1001 \<and>
      s_exp_avg_sq st' = [Update [3] [[9, 900]] (999 / 1000)]"
    by blast
  show ?thesis
    using z k0 k1 m e1 e2 by (intro conjI)
qed

subsection \<open>The error diagnostic\<close>

lemma diagnostic_leaves_update:
  "map_sum id (\<lambda>r. (s_step (fst r), s_exp_avg (fst r), s_exp_avg_sq (fst r), snd (snd (snd r))))
     (sparse ops dg1 p grad grp state) =
   map_sum id (\<lambda>r. (s_step (fst r), s_exp_avg (fst r), s_exp_avg_sq (fst r), snd (snd (snd r))))
     (sparse ops dg2 p grad grp state)"
  by (simp add: sparse_def Let_def split: sum.splits)

text \<open>
  Claim C6, at inputs where it fails. The counters start at \<^verbatim>\<open>count = 1\<close> and a printing
  call resets \<^verbatim>\<open>count\<close> to 1 and then counts itself: with an error sum of 1 per call for
  both moments, 250 calls print at calls 125 and 249 (124 calls apart, not 125), and what
  call 125 prints is the sum of 124 calls divided by 125, not a mean. And the second sum
  does not compare the same quantity: it subtracts the shadow second moment from
  \<^verbatim>\<open>denom\<close>, the square root of the estimate plus \<^verbatim>\<open>eps\<close>; with a sketch whose estimates
  equal the shadow, the first sum is 0 and the second is not. (The counters do not
  influence the parameter update: lemma \<open>diagnostic_leaves_update\<close>.)
\<close>

theorem diagnostic_cadence_and_quantity:
  "printing_calls (run_diagnostic \<lparr>exp_avg_error = 0, exp_avg_sq_error = Some 0, count = 1\<rparr>
      (replicate 250 (1, Some 1))) = [125, 249] \<and>
   run_diagnostic \<lparr>exp_avg_error = 0, exp_avg_sq_error = Some 0, count = 1\<rparr>
      (replicate 125 (1, Some 1)) ! 124 = Some (124 / 125, Some (124 / 125)) \<and>
   map_sum id (fst \<circ> snd)
     (sparse exact_first_step \<lparr>exp_avg_error = 0, exp_avg_sq_error = Some 0, count = 1\<rparr>
        [[0, 0], [0, 0]]
        \<lparr>sg_indices = [0], sg_values = [[4, 4]], sg_size = (2, 2)\<rparr>
        \<lparr>g_lr = 1 / 10, g_betas = (1 / 2, 3 / 4), g_eps = 0, g_weight_decay = 0, g_amsgrad = False\<rparr>
        None)
   = Inr \<lparr>exp_avg_error = 0, exp_avg_sq_error = Some 4, count = 2\<rparr>"
proof -
  have c1: "printing_calls (run_diagnostic \<lparr>exp_avg_error = 0, exp_avg_sq_error = Some 0, count = 1\<rparr>
      (replicate 250 (1, Some 1))) = [125, 249]"
    by code_simp
  have c2: "run_diagnostic \<lparr>exp_avg_error = 0, exp_avg_sq_error = Some 0, count = 1\<rparr>
      (replicate 125 (1, Some 1)) ! 124 = Some (124 / 125, Some (124 / 125))"
    by code_simp
  have c: "coalesce \<lparr>sg_indices = [0], sg_values = [[4, 4]], sg_size = (2, 2)\<rparr>
         = \<lparr>sg_indices = [0], sg_values = [[4, 4]], sg_size = (2, 2)\<rparr>"
    by (simp add: coalesce_def sum_rows_def numeral_2_eq_2)
  have c3: "map_sum id (fst \<circ> snd)
     (sparse exact_first_step \<lparr>exp_avg_error = 0, exp_avg_sq_error = Some 0, count = 1\<rparr>
        [[0, 0], [0, 0]]
        \<lparr>sg_indices = [0], sg_values = [[4, 4]], sg_size = (2, 2)\<rparr>
        \<lparr>g_lr = 1 / 10, g_betas = (1 / 2, 3 / 4), g_eps = 0, g_weight_decay = 0, g_amsgrad = False\<rparr>
        None)
     = Inr \<lparr>exp_avg_error = 0, exp_avg_sq_error = Some 4, count = 2\<rparr>"
    by (simp add: sparse_def c Let_def state_or_init_def exact_first_step_def step_size_def
          sparse_mask_def add_sparse_def zeros_like_def sum_abs_diff_def
          fsum_abs_diff_def diagnostic_def denom_of_def fsqrt_def fadd_def)
  from c1 c2 c3 show ?thesis by (intro conjI)
qed

subsection \<open>The hashed kernel\<close>



lemma loop_invariant:
  assumes "I s" and "\<And>i s. i \<in> set is \<Longrightarrow> I s \<Longrightarrow> \<exists>s'. f i s = Inr s' \<and> I s'"
  shows "\<exists>s'. loop f is s = Inr s' \<and> I s'"
  using assms
proof (induction "is" arbitrary: s)
  case Nil
  then show ?case by simp
next
  case (Cons i "is")
  from Cons.prems obtain s1 where s1: "f i s = Inr s1" "I s1"
    by (metis list.set_intros(1))
  have "\<exists>s'. loop f is s1 = Inr s' \<and> I s'"
    using s1(2) Cons.prems(2) by (intro Cons.IH) auto
  with s1(1) show ?case by simp
qed



lemma cms_store_step:
  assumes "0 < W" and "W < 2 ^ 31"
  shows "cms_store off W g before i acc =
     Inr (acc[bucket W (off + i) := before ! bucket W (off + i) + (g ! (off + i)) ^ 2])"
  using hash_bucket [OF assms, of "off + i"]
  by (simp add: cms_store_def Let_def)





lemma cms_pass_keeps_one_store:
  assumes W: "0 < W" "W < 2 ^ 31" and la: "length acc = W"
    and r: "cms_pass lr beta off W aux g sched is (P, acc) = Inr (P', acc')"
    and w: "w < W"
  shows "acc' ! w = acc ! w \<or>
     (\<exists>i\<in>set (sched is). bucket W (off + i) = w \<and> acc' ! w = acc ! w + (g ! (off + i)) ^ 2)"
proof -
  let ?J = "\<lambda>a :: real list. length a = W \<and>
      (a ! w = acc ! w \<or>
       (\<exists>i\<in>set (sched is). bucket W (off + i) = w \<and> a ! w = acc ! w + (g ! (off + i)) ^ 2))"
  have "\<exists>a'. loop (cms_store off W g acc) (sched is) acc = Inr a' \<and> ?J a'"
  proof (rule loop_invariant)
    show "?J acc" using la by simp
  next
    fix i and a :: "real list" assume i: "i \<in> set (sched is)" and a: "?J a"
    let ?b = "bucket W (off + i)"
    let ?a' = "a[?b := acc ! ?b + (g ! (off + i)) ^ 2]"
    have st: "cms_store off W g acc i a = Inr ?a'"
      using W by (rule cms_store_step)
    have "?J ?a'"
    proof (cases "?b = w")
      case True
      with a w have "?a' ! w = acc ! w + (g ! (off + i)) ^ 2" by simp
      with True i a show ?thesis by auto
    next
      case False
      then have "?a' ! w = a ! w" by simp
      with a show ?thesis by simp
    qed
    with st show "\<exists>a'. cms_store off W g acc i a = Inr a' \<and> ?J a'" by simp
  qed
  then obtain a' where s: "loop (cms_store off W g acc) (sched is) acc = Inr a'" and J: "?J a'"
    by blast
  from r s have "acc' = a'"
    by (auto simp: cms_pass_def split: sum.splits)
  with J show ?thesis by simp
qed

lemma hash_2_values:
  "hash 0 2 994443 609478 = Inr 1" "hash 1 2 994443 609478 = Inr 1"
  "hash 2 2 994443 609478 = Inr 1" "hash 3 2 994443 609478 = Inr 0"
  "hash 4 2 994443 609478 = Inr 1" "hash 5 2 994443 609478 = Inr 0"
  "hash 6 2 994443 609478 = Inr 1" "hash 7 2 994443 609478 = Inr 0"
  by (simp_all add: hash_def hash_mix_def xorshift_def Let_def)

lemma bucket_sum_row_0:
  "bucket_sum [1, 2, 3, 4, 5, 6, 7, 8] 0 2 4 (Suc 0) = 14"
proof -
  have u: "[0..<4] = [0, 1, 2, 3]" by (simp add: upt_rec)
  show ?thesis
    by (simp add: bucket_sum_def bucket_def hash_2_values u)
qed

lemma DenseCMS_init_2_4:
  "DenseCMS_init 2 4 (1 / 2) =
     \<lparr>dc_N = 2, dc_D = 4, dc_blk_size = 32, dc_range = 2, dc_cms = [0, 0, 0, 0]\<rparr>"
  by (simp add: DenseCMS_init_def py_int_def Let_def numeral_eq_Suc)

text \<open>
  Claim C2 says that after one step every bucket holds \<open>beta * old + (1 - beta) * sum\<close>,
  with \<open>sum\<close> the sum of \<open>g\<^sup>2\<close> over the coordinates hashed to the bucket. Two parts of the
  claim hold: a coordinate computes its update from the staged value of its bucket
  (\<open>cms_thread_step\<close>), and the commit adds \<open>(1 - beta) * (acc - aux)\<close> to the table. But
  \<open>acc\<close> is not the sum. The accumulation \<^verbatim>\<open>acc[hash_idx] += value\<close> of line 66 is not
  atomic, so of the coordinates of a warp pass that share a bucket one store only remains
  (\<open>cms_pass_keeps_one_store\<close>). For \<open>N = 2\<close>, \<open>D = 4\<close> and \<open>sketch_size = 0.5\<close> (two buckets
  per row, the hashed kernel) and the gradient \<open>1, \<dots>, 8\<close> on a zero table, the coordinates
  0, 1 and 2 of row 0 share bucket 1. The claim gives \<open>0.5 * (1 + 4 + 9) = 7\<close> for it; the
  kernel leaves \<open>4.5\<close> when the stores land in the order of the threads and \<open>0.5\<close> when
  they land in the reverse order.
\<close>

theorem hashed_kernel_loses_colliding_updates:
  "initialize (DenseCMS_init 2 4 (1 / 2)) = Dense_cms_update \<and>
   map_sum id (dc_cms \<circ> snd)
     (DenseCMS_update id (DenseCMS_init 2 4 (1 / 2)) (replicate 8 (Some 0))
        [1, 2, 3, 4, 5, 6, 7, 8] 1 (1 / 2)) = Inr [8, 9 / 2, 32, 49 / 2] \<and>
   map_sum id (dc_cms \<circ> snd)
     (DenseCMS_update rev (DenseCMS_init 2 4 (1 / 2)) (replicate 8 (Some 0))
        [1, 2, 3, 4, 5, 6, 7, 8] 1 (1 / 2)) = Inr [8, 1 / 2, 18, 25 / 2] \<and>
   1 / 2 * dc_cms (DenseCMS_init 2 4 (1 / 2)) ! 1
     + (1 - 1 / 2) * bucket_sum [1, 2, 3, 4, 5, 6, 7, 8] 0 2 4 1 = 7"
proof -
  have u: "[0..<4] = [0, 1, 2, 3]" "[0..<2] = [0, 1]" "[0..<Suc 0] = [0]"
    by (simp_all add: upt_rec)
  have i: "initialize (DenseCMS_init 2 4 (1 / 2)) = Dense_cms_update"
    by (simp add: DenseCMS_init_2_4 initialize_def)
  have a: "map_sum id (dc_cms \<circ> snd)
     (DenseCMS_update id (DenseCMS_init 2 4 (1 / 2)) (replicate 8 (Some 0))
        [1, 2, 3, 4, 5, 6, 7, 8] 1 (1 / 2)) = Inr [8, 9 / 2, 32, 49 / 2]"
    by (simp add: DenseCMS_init_2_4 DenseCMS_update_def initialize_def dense_cms_update_def
          cms_pass_def cms_thread_def cms_store_def hash_2_values u Let_def rsqrtf_def
          fscale_def fadd_def)
  have b: "map_sum id (dc_cms \<circ> snd)
     (DenseCMS_update rev (DenseCMS_init 2 4 (1 / 2)) (replicate 8 (Some 0))
        [1, 2, 3, 4, 5, 6, 7, 8] 1 (1 / 2)) = Inr [8, 1 / 2, 18, 25 / 2]"
    by (simp add: DenseCMS_init_2_4 DenseCMS_update_def initialize_def dense_cms_update_def
          cms_pass_def cms_thread_def cms_store_def hash_2_values u Let_def rsqrtf_def
          fscale_def fadd_def)
  have c: "1 / 2 * dc_cms (DenseCMS_init 2 4 (1 / 2)) ! 1
     + (1 - 1 / 2) * bucket_sum [1, 2, 3, 4, 5, 6, 7, 8] 0 2 4 1 = (7::real)"
    by (simp add: DenseCMS_init_2_4 bucket_sum_row_0)
  from i a b c show ?thesis by (intro conjI)
qed

subsection \<open>Denominators\<close>










subsection \<open>Steps that return, and denominators that are positive\<close>





end
